theory Spec2Isabelle
  imports Complex_Main "HOL-Library.Word" "HOL-Library.Monad_Syntax" "HOL-Library.Signed_Division"
begin

section \<open>Common types (libs/gl/common.h)\<close>

text \<open>
  Conventions of the embedding.
  \<^item> A C array is a list; a pointer into it is an integer offset from its first element.
    Reading or writing through an offset outside the array is undefined behaviour in C and
    is the value \<open>None\<close> here: every function that touches memory returns an option.
  \<^item> \<open>uint8_t\<close> and \<open>int8_t\<close> are \<open>8 word\<close>; \<open>size_t\<close> is \<open>nat\<close>
    and \<open>int\<close> is \<open>int\<close> (no claim depends on their overflow).
  \<^item> The sum of a pointer and a \<open>size_t\<close> difference that wrapped around
    (\<open>dst += context->width - tile.width\<close> with a tile wider than the context) is the
    offset moved backwards, as on a flat address space.
\<close>

type_synonym GL_Pixel_t = "8 word"

type_synonym GL_Bool_t = "8 word"

record GL_Point_t =
  x :: int
  y :: int

record GL_Rectangle_t = GL_Point_t +
  width :: nat
  height :: nat

record GL_Color_t =
  r :: "8 word"
  g :: "8 word"
  b :: "8 word"
  a :: "8 word"

record GL_Palette_t =
  colors :: "GL_Color_t list"

section \<open>The display (core/io/display.c)\<close>

text \<open>
  The display talks to GLFW, to OpenGL and to the allocator. What these answer is an
  input of the model (a record of answers), and every call that creates, releases or
  selects a resource is recorded, in order, together with every \<open>Log_write\<close>. Calls
  that only set a parameter (window hints, callbacks, texture parameters, uniforms) are
  left out. \<open>GLuint\<close> is \<open>32 word\<close>. The C \<open>int\<close>s of the geometry are
  integers; \<open>/\<close> on them truncates towards zero (\<open>sdiv\<close>) and a division by zero
  is undefined behaviour, the value \<open>None\<close>.
\<close>

datatype Log_Levels_t =
  LOG_LEVELS_TRACE | LOG_LEVELS_DEBUG | LOG_LEVELS_INFO
  | LOG_LEVELS_WARNING | LOG_LEVELS_ERROR | LOG_LEVELS_FATAL

text \<open>A call: \<open>glfwInit\<close>, \<open>glfwCreateWindow\<close> and \<open>malloc\<close> with their
  success, \<open>malloc\<close> with the number of \<open>GL_Color_t\<close> entries asked for,
  \<open>free\<close> with the buffer it is given (\<open>None\<close> is \<open>NULL\<close>), the OpenGL
  calls with the name of the object.\<close>

datatype event =
  Log_write Log_Levels_t string
  | glfwInit bool
  | glfwTerminate
  | glfwCreateWindow bool
  | glfwDestroyWindow
  | GL_context_create bool
  | GL_context_delete
  | malloc nat bool
  | free "nat option"
  | glGenTextures "32 word"
  | glDeleteBuffers "32 word"
  | glCreateProgram "32 word"
  | glDeleteProgram "32 word"
  | glUseProgram "32 word"
  | program_send "32 word"

record GL_Quad_t =
  x0 :: int
  y0 :: int
  x1 :: int
  y1 :: int

text \<open>\<open>Display_Configuration_t\<close> and \<open>Display_t\<close> (display.h is not among the
  sources): the fields that display.c reads and writes, without the title, the icon, the
  palette and the time uniform.\<close>

record Display_Configuration_t =
  width :: int
  height :: int
  fullscreen :: bool
  vertical_sync :: bool
  scale :: int
  hide_cursor :: bool

text \<open>\<open>Program_t\<close>; its field \<open>id\<close> is \<open>program_id\<close> here.\<close>

record Program_t =
  program_id :: "32 word"

text \<open>\<open>Display_Programs_t\<close>, the indices of \<open>display->programs\<close>.\<close>

definition DISPLAY_PROGRAM_PASSTHRU :: nat where
  "DISPLAY_PROGRAM_PASSTHRU = 0"

definition DISPLAY_PROGRAM_CUSTOM :: nat where
  "DISPLAY_PROGRAM_CUSTOM = 1"

definition Display_Programs_t_CountOf :: nat where
  "Display_Programs_t_CountOf = 2"

text \<open>
  \<open>window\<close> tells whether the handle is not \<open>NULL\<close>; \<open>vram\<close> is \<open>NULL\<close>
  (\<open>None\<close>) or a buffer of that many \<open>GL_Color_t\<close> entries; \<open>active_program\<close>
  is \<open>NULL\<close> or points at one of the two \<open>programs\<close>.
\<close>

record Display_t =
  configuration :: Display_Configuration_t
  window :: bool
  window_width :: int
  window_height :: int
  window_scale :: int
  vram_destination :: GL_Quad_t
  physical_width :: int
  physical_height :: int
  vram :: "nat option"
  vram_texture :: "32 word"
  programs :: "Program_t list"
  active_program :: "nat option"

text \<open>\<open>*display = (Display_t){ 0 }\<close>.\<close>

definition Display_zero :: Display_t where
  "Display_zero =
     \<lparr> configuration = \<lparr> Display_Configuration_t.width = 0, Display_Configuration_t.height = 0,
                         fullscreen = False, vertical_sync = False, scale = 0, hide_cursor = False \<rparr>,
       window = False, window_width = 0, window_height = 0, window_scale = 0,
       vram_destination = \<lparr> x0 = 0, y0 = 0, x1 = 0, y1 = 0 \<rparr>,
       physical_width = 0, physical_height = 0, vram = None, vram_texture = 0,
       programs = replicate Display_Programs_t_CountOf \<lparr> program_id = 0 \<rparr>,
       active_program = None \<rparr>"

subsection \<open>The window geometry\<close>

text \<open>
  Modelled from the spec: \<open>imin\<close> (libs/imath.h is not among the sources), the smaller
  of two integers, as the "maximum integer scale that fits the physical display" in both
  directions needs it.
\<close>

definition imin :: "int \<Rightarrow> int \<Rightarrow> int" where
  "imin m n = (if m < n then m else n)"

definition c_div :: "int \<Rightarrow> int \<Rightarrow> int option" where
  "c_div m n = (if n = 0 then None else Some (m sdiv n))"

text \<open>
  \<open>compute_size\<close>. The size of the monitor's work area, which the source asks GLFW
  for, is the first argument; the parameter \<open>configuration\<close> is \<open>config\<close>. The result is the returned flag, the display, the position
  if it was written, and the log.
\<close>

definition compute_size :: "int \<times> int \<Rightarrow> Display_t \<Rightarrow> Display_Configuration_t
    \<Rightarrow> (bool \<times> Display_t \<times> GL_Point_t option \<times> event list) option" where
  "compute_size workarea display config =
     (let (display_width, display_height) = workarea;
          log1 = [Log_write LOG_LEVELS_DEBUG ''<DISPLAY> display size is %dx%d''];
          display1 = display\<lparr>window_width := Display_Configuration_t.width config,
                             window_height := Display_Configuration_t.height config,
                             window_scale := 1\<rparr>
      in do {
        by_width \<leftarrow> c_div display_width (Display_Configuration_t.width config);
        by_height \<leftarrow> c_div display_height (Display_Configuration_t.height config);
        let max_scale = imin by_width by_height;
        let scale0 = (if scale config \<noteq> 0 then scale config else max_scale);
        if max_scale = 0
        then Some (False, display1, None,
               log1 @ [Log_write LOG_LEVELS_FATAL ''<DISPLAY> requested display size can't fit display!''])
        else do {
          let (scale1, log2) =
                (if scale0 > max_scale
                 then (max_scale, [Log_write LOG_LEVELS_WARNING ''<DISPLAY> requested scaling x%d too big, forcing to x%d''])
                 else (scale0, []));
          let display2 = display1\<lparr>window_width := Display_Configuration_t.width config * scale1,
                                   window_height := Display_Configuration_t.height config * scale1,
                                   window_scale := scale1\<rparr>;
          let log3 = [Log_write LOG_LEVELS_DEBUG ''<DISPLAY> window size is %dx%d (%dx)''];
          let x = (display_width - window_width display2) sdiv 2;
          let y = (display_height - window_height display2) sdiv 2;
          if \<not> fullscreen config
          then Some (True,
                 display2\<lparr>vram_destination := \<lparr> x0 = 0, y0 = 0, x1 = window_width display2,
                                                 y1 = window_height display2 \<rparr>,
                           physical_width := window_width display2,
                           physical_height := window_height display2\<rparr>,
                 Some \<lparr> GL_Point_t.x = x, GL_Point_t.y = y \<rparr>, log1 @ log2 @ log3)
          else Some (True,
                 display2\<lparr>vram_destination := \<lparr> x0 = x, y0 = y, x1 = x + window_width display2,
                                                 y1 = y + window_height display2 \<rparr>,
                           physical_width := display_width,
                           physical_height := display_height\<rparr>,
                 Some \<lparr> GL_Point_t.x = 0, GL_Point_t.y = 0 \<rparr>, log1 @ log2 @ log3)
        }
      })"

subsection \<open>Shader programs\<close>

text \<open>
  display.c calls \<open>program_create\<close>, \<open>program_delete\<close>, \<open>program_attach\<close>,
  \<open>program_prepare\<close>, \<open>program_use\<close> and \<open>program_send\<close>; the file that
  defines them under these names is not among the sources. gl/program.c defines them as
  \<open>GL_program_create\<close> and so on, and these are embedded here. What the driver
  answers is a \<open>GL_Driver\<close>: the name that \<open>glCreateProgram\<close> returns (0 on
  failure) and whether the vertex and the fragment shader compile and link.
  \<open>program_prepare\<close> (not in gl/program.c) touches no resource and is left out;
  \<open>program_send\<close> is recorded as a call.
\<close>

record GL_Driver =
  created_id :: "32 word"
  vertex_ok :: bool
  fragment_ok :: bool

definition program_create :: "GL_Driver \<Rightarrow> Program_t \<Rightarrow> bool \<times> Program_t \<times> event list" where
  "program_create driver program =
     (if created_id driver = 0
      then (False, program,
            [glCreateProgram 0, Log_write LOG_LEVELS_ERROR ''<GL> can't create shader program''])
      else (True, \<lparr> program_id = created_id driver \<rparr>,
            [glCreateProgram (created_id driver),
             Log_write LOG_LEVELS_DEBUG ''<GL> shader program #%d created'']))"

definition program_delete :: "Program_t \<Rightarrow> Program_t \<times> event list" where
  "program_delete program =
     (\<lparr> program_id = 0 \<rparr>,
      [glDeleteProgram (program_id program), Log_write LOG_LEVELS_DEBUG ''<GL> shader program #%d deleted''])"

definition program_attach :: "bool \<Rightarrow> Program_t \<Rightarrow> bool \<times> event list" where
  "program_attach compiles program =
     (if compiles
      then (True, [Log_write LOG_LEVELS_TRACE ''<GL> compiling shader'',
                   Log_write LOG_LEVELS_DEBUG ''<GL> shader #%d compiled into program #%d''])
      else (False, [Log_write LOG_LEVELS_TRACE ''<GL> compiling shader'',
                    Log_write LOG_LEVELS_ERROR ''<GL> shader compile error: %s'']))"

text \<open>\<open>program_create(program) && program_attach(program, vertex) &&
  program_attach(program, fragment)\<close>, evaluated from the left and no further than
  needed.\<close>

definition program_build :: "GL_Driver \<Rightarrow> Program_t \<Rightarrow> bool \<times> Program_t \<times> event list" where
  "program_build driver program =
     (let (created, program1, ev1) = program_create driver program in
      if \<not> created then (False, program1, ev1)
      else let (vertex, ev2) = program_attach (vertex_ok driver) program1 in
        if \<not> vertex then (False, program1, ev1 @ ev2)
        else let (fragment, ev3) = program_attach (fragment_ok driver) program1 in
          (fragment, program1, ev1 @ ev2 @ ev3))"

subsection \<open>Display_shader\<close>

text \<open>
  \<open>effect\<close> is \<open>NULL\<close> (\<open>None\<close>) or the source text of the effect; whether the
  text compiles is the driver's answer. Reading through \<open>active_program\<close> when it is
  \<open>NULL\<close> is undefined behaviour, \<open>None\<close>. The string \<open>code\<close> that the function
  builds and frees is left out.
\<close>

definition Display_shader :: "GL_Driver \<Rightarrow> Display_t \<Rightarrow> string option
    \<Rightarrow> (Display_t \<times> event list) option" where
  "Display_shader driver display effect =
     (let is_passthru = (active_program display = Some DISPLAY_PROGRAM_PASSTHRU) in
      if is_passthru \<and> effect = None
      then Some (display,
             [Log_write LOG_LEVELS_INFO ''<DISPLAY> pass-thru shader already active, bailing out''])
      else
        let (display1, ev1) =
              (case active_program display of
                 Some p \<Rightarrow>
                   if \<not> is_passthru
                   then (let (deleted, ev) = program_delete (programs display ! p)
                         in (display\<lparr>programs := (programs display)[p := deleted]\<rparr>, ev))
                   else (display, [])
               | None \<Rightarrow> (display, []));
            (display2, ev2) =
              (if effect = None
               then (let (deleted, ev) = program_delete (programs display1 ! DISPLAY_PROGRAM_CUSTOM)
                     in (display1\<lparr>programs := (programs display1)[DISPLAY_PROGRAM_CUSTOM := deleted],
                                   active_program := Some DISPLAY_PROGRAM_PASSTHRU\<rparr>,
                         Log_write LOG_LEVELS_DEBUG ''<DISPLAY> loading pass-thru shader'' # ev))
               else (let (built, program, ev) =
                           program_build driver (programs display1 ! DISPLAY_PROGRAM_CUSTOM)
                     in if built
                        then (display1\<lparr>programs := (programs display1)[DISPLAY_PROGRAM_CUSTOM := program],
                                        active_program := Some DISPLAY_PROGRAM_CUSTOM\<rparr>,
                              Log_write LOG_LEVELS_DEBUG ''<DISPLAY> loading custom shader'' # ev)
                        else (let (deleted, ev') = program_delete program
                              in (display1\<lparr>programs := (programs display1)[DISPLAY_PROGRAM_CUSTOM := deleted]\<rparr>,
                                  Log_write LOG_LEVELS_DEBUG ''<DISPLAY> loading custom shader'' # ev @ ev'
                                    @ [Log_write LOG_LEVELS_WARNING ''<DISPLAY> can't load custom shader'']))))
        in case active_program display2 of
             None \<Rightarrow> None
           | Some p \<Rightarrow>
               Some (display2,
                 ev1 @ ev2
                 @ [Log_write LOG_LEVELS_DEBUG ''<DISPLAY> switched to program #%p'',
                    glUseProgram (program_id (programs display2 ! p)),
                    Log_write LOG_LEVELS_DEBUG ''<DISPLAY> program #%p active'',
                    program_send (program_id (programs display2 ! p)),
                    program_send (program_id (programs display2 ! p)),
                    Log_write LOG_LEVELS_DEBUG ''<DISPLAY> program #%p initialized'']))"

subsection \<open>Display_initialize\<close>

text \<open>What GLFW, GLAD, the GL context, the allocator and the driver answer during
  \<open>Display_initialize\<close>.\<close>

record Platform =
  glfwInit_ok :: bool
  glfwCreateWindow_ok :: bool
  gladLoadGLLoader_ok :: bool
  GL_context_create_ok :: bool
  glfwGetMonitorWorkarea :: "int \<times> int"
  malloc_ok :: bool
  glGenTextures_id :: "32 word"
  passthru_driver :: GL_Driver

text \<open>
  \<open>Display_initialize\<close>, in three parts that follow one another in the source; each
  takes the display and the calls made so far and gives the returned flag, the display
  and all the calls. The parameter \<open>configuration\<close> is \<open>config\<close>.

  The last part: the loop over \<open>_programs_data\<close>, unrolled (its first entry is the
  pass-through program, its second has no sources and is skipped), and the first
  \<open>Display_shader\<close>.
\<close>

definition initialize_programs :: "Platform \<Rightarrow> Display_t \<Rightarrow> event list
    \<Rightarrow> (bool \<times> Display_t \<times> event list) option" where
  "initialize_programs platform display ev =
     (let (built, program, ev_build) =
            program_build (passthru_driver platform) (programs display ! DISPLAY_PROGRAM_PASSTHRU);
          display1 = display\<lparr>programs := (programs display)[DISPLAY_PROGRAM_PASSTHRU := program]\<rparr>
      in
      if \<not> built
      then Some (False, display1,
             ev @ ev_build
             @ [Log_write LOG_LEVELS_FATAL ''<DISPLAY> can't initialize shaders'',
                glDeleteBuffers (vram_texture display1), free (Display_t.vram display1),
                GL_context_delete, glfwDestroyWindow, glfwTerminate])
      else
        (case Display_shader (passthru_driver platform) display1 None of
           None \<Rightarrow> None
         | Some (display2, ev_shader) \<Rightarrow>
             Some (True, display2,
               ev @ ev_build
               @ [Log_write LOG_LEVELS_DEBUG ''<DISPLAY> program #%p prepared w/ id #%d'']
               @ ev_shader)))"

text \<open>
  The middle part: the true-colour buffer \<open>display->vram\<close> and the texture. The
  buffer is asked for with \<open>width * width * sizeof(GL_Color_t)\<close> bytes, that is
  \<open>width * width\<close> entries. The branch taken when \<open>malloc\<close> fails has no
  \<open>return\<close> in the source, so it goes on to \<open>glGenTextures\<close> here as well.
\<close>

definition initialize_vram :: "Platform \<Rightarrow> Display_t \<Rightarrow> event list
    \<Rightarrow> (bool \<times> Display_t \<times> event list) option" where
  "initialize_vram platform display ev =
     (let entries = nat (Display_Configuration_t.width (configuration display)
                         * Display_Configuration_t.width (configuration display));
          (display1, ev1) =
            (if malloc_ok platform
             then (display\<lparr>Display_t.vram := Some entries\<rparr>, ev @ [malloc entries True])
             else (display\<lparr>Display_t.vram := None\<rparr>,
                   ev @ [malloc entries False,
                         Log_write LOG_LEVELS_FATAL ''<DISPLAY> can't allocate VRAM buffer'',
                         GL_context_delete, glfwDestroyWindow, glfwTerminate]));
          ev2 = ev1 @ [Log_write LOG_LEVELS_DEBUG ''<DISPLAY> VRAM allocated at #%p (%dx%d)'',
                       glGenTextures (glGenTextures_id platform)];
          display2 = display1\<lparr>vram_texture := glGenTextures_id platform\<rparr>
      in
      if vram_texture display2 = 0
      then Some (False, display2,
             ev2 @ [Log_write LOG_LEVELS_FATAL ''<DISPLAY> can't allocate VRAM texture'',
                    free (Display_t.vram display2), GL_context_delete,
                    glfwDestroyWindow, glfwTerminate])
      else initialize_programs platform display2
             (ev2 @ [Log_write LOG_LEVELS_DEBUG ''<DISPLAY> texture created w/ id #%d (%dx%d)'']))"

text \<open>The first part: GLFW, the window, GLAD, the GL context and the geometry.\<close>

definition Display_initialize :: "Platform \<Rightarrow> Display_Configuration_t
    \<Rightarrow> (bool \<times> Display_t \<times> event list) option" where
  "Display_initialize platform config =
     (let display0 = Display_zero\<lparr>configuration := config\<rparr> in
      if \<not> glfwInit_ok platform
      then Some (False, display0,
             [glfwInit False, Log_write LOG_LEVELS_FATAL ''<DISPLAY> can't initialize GLFW''])
      else if \<not> glfwCreateWindow_ok platform
      then Some (False, display0,
             [glfwInit True, glfwCreateWindow False,
              Log_write LOG_LEVELS_FATAL ''<DISPLAY> can't create window'', glfwTerminate])
      else
        let display1 = display0\<lparr>window := True\<rparr>;
            ev1 = [glfwInit True, glfwCreateWindow True,
                   Log_write LOG_LEVELS_DEBUG ''<DISPLAY> %sabling vertical synchronization'']
        in
        if \<not> gladLoadGLLoader_ok platform
        then Some (False, display1,
               ev1 @ [Log_write LOG_LEVELS_FATAL ''<DISPLAY> can't initialize GLAD'',
                      glfwDestroyWindow, glfwTerminate])
        else
          let ev2 = ev1 @ [Log_write LOG_LEVELS_INFO ''<DISPLAY> Vendor: %s'',
                           Log_write LOG_LEVELS_INFO ''<DISPLAY> Renderer: %s'',
                           Log_write LOG_LEVELS_INFO ''<DISPLAY> Version: %s'',
                           Log_write LOG_LEVELS_INFO ''<DISPLAY> GLSL: %s'']
          in
          if \<not> GL_context_create_ok platform
          then Some (False, display1,
                 ev2 @ [GL_context_create False,
                        Log_write LOG_LEVELS_FATAL ''<DISPLAY> can't initialize GL'',
                        glfwDestroyWindow, glfwTerminate])
          else
            let ev3 = ev2 @ [GL_context_create True,
                             Log_write LOG_LEVELS_DEBUG ''<DISPLAY> calculating greyscale palette of #%d entries'']
            in
            (case compute_size (glfwGetMonitorWorkarea platform) display1 config of
               None \<Rightarrow> None
             | Some (fits, display2, position, ev_size) \<Rightarrow>
                 if \<not> fits
                 then Some (False, display2, ev3 @ ev_size @ [glfwDestroyWindow, glfwTerminate])
                 else initialize_vram platform display2
                        (ev3 @ ev_size
                         @ (if fullscreen config
                            then [Log_write LOG_LEVELS_INFO ''<DISPLAY> entering full-screen mode'']
                            else []))))"

subsection \<open>Reading a record of calls\<close>

text \<open>Whether a window exists after the calls, and how often a call was made.\<close>

fun window_after :: "bool \<Rightarrow> event \<Rightarrow> bool" where
  "window_after w (glfwCreateWindow created) = created"
| "window_after w glfwDestroyWindow = False"
| "window_after w e = w"

definition window_open :: "event list \<Rightarrow> bool" where
  "window_open evs = foldl window_after False evs"

definition times_called :: "event \<Rightarrow> event list \<Rightarrow> nat" where
  "times_called e evs = length (filter (\<lambda>c. c = e) evs)"

text \<open>The calls that create, delete or select a shader program, and what a call of
  \<open>Display_shader\<close> leaves: the active slot, the programs and these calls.\<close>

fun is_program_call :: "event \<Rightarrow> bool" where
  "is_program_call (glCreateProgram i) = True"
| "is_program_call (glDeleteProgram i) = True"
| "is_program_call (glUseProgram i) = True"
| "is_program_call c = False"

definition program_calls :: "event list \<Rightarrow> event list" where
  "program_calls evs = filter is_program_call evs"

definition shader_outcome :: "(Display_t \<times> event list) option
    \<Rightarrow> (nat option \<times> Program_t list \<times> event list) option" where
  "shader_outcome result =
     map_option (\<lambda>(display, evs). (active_program display, programs display, program_calls evs)) result"

subsection \<open>Concrete platforms\<close>

text \<open>A driver that builds program 1, a platform on which every call succeeds, with a
  work area of 1920 by 1080, and the canvas of 320 by 180 with automatic scale.\<close>

definition good_driver :: GL_Driver where
  "good_driver = \<lparr> created_id = 1, vertex_ok = True, fragment_ok = True \<rparr>"

definition good_platform :: Platform where
  "good_platform =
     \<lparr> glfwInit_ok = True, glfwCreateWindow_ok = True, gladLoadGLLoader_ok = True,
       GL_context_create_ok = True, glfwGetMonitorWorkarea = (1920, 1080),
       malloc_ok = True, glGenTextures_id = 1, passthru_driver = good_driver \<rparr>"

definition canvas_320x180 :: Display_Configuration_t where
  "canvas_320x180 =
     \<lparr> Display_Configuration_t.width = 320, Display_Configuration_t.height = 180,
       fullscreen = False, vertical_sync = True, scale = 0, hide_cursor = False \<rparr>"

text \<open>A driver whose fragment shader does not compile, a display on which a custom
  program (number 2) is active, and one on which the pass-through program (number 1)
  is.\<close>

definition failing_driver :: GL_Driver where
  "failing_driver = \<lparr> created_id = 3, vertex_ok = True, fragment_ok = False \<rparr>"

definition display_with_effect :: Display_t where
  "display_with_effect =
     Display_zero\<lparr>window := True,
                   programs := [\<lparr> program_id = 1 \<rparr>, \<lparr> program_id = 2 \<rparr>],
                   active_program := Some DISPLAY_PROGRAM_CUSTOM\<rparr>"

definition display_with_passthru :: Display_t where
  "display_with_passthru =
     Display_zero\<lparr>window := True,
                   programs := [\<lparr> program_id = 1 \<rparr>, \<lparr> program_id = 0 \<rparr>],
                   active_program := Some DISPLAY_PROGRAM_PASSTHRU\<rparr>"

section \<open>The software rasterizer (gl/context.c, gl/primitive.c)\<close>

text \<open>
  \<open>GL_Context_t\<close>: the fields that context.c initialises and uses. \<open>vram_rows\<close> is
  the table of row pointers, kept as offsets into \<open>vram\<close>.
\<close>

record GL_Context_t =
  width :: nat
  height :: nat
  vram :: "GL_Color_t list"
  vram_rows :: "int list"
  vram_size :: nat
  background :: GL_Pixel_t
  shifting :: "GL_Pixel_t list"
  transparent :: "GL_Bool_t list"
  palette :: GL_Palette_t

text \<open>
  \<open>GL_Surface_t\<close> (surface.h is not among the sources): the fields that the blits read,
  \<open>width\<close>, \<open>data\<close> and the row-pointer table \<open>data_rows\<close>, plus the height
  that bounds the table.
\<close>

record GL_Surface_t =
  width :: nat
  height :: nat
  data :: "GL_Pixel_t list"
  data_rows :: "int list"

text \<open>
  Modelled from the spec: \<open>GL_MAX_PALETTE_COLORS\<close> (palette.h is not among the sources),
  the length of the shifting table, the transparency table and the palette; the spec gives
  256, which is also the number of values of a \<open>GL_Pixel_t\<close>.
\<close>

definition GL_MAX_PALETTE_COLORS :: nat where
  "GL_MAX_PALETTE_COLORS = 256"

subsection \<open>Memory accesses\<close>

definition load :: "'a list \<Rightarrow> int \<Rightarrow> 'a option" where
  "load xs p = (if 0 \<le> p \<and> p < int (length xs) then Some (xs ! nat p) else None)"

definition store :: "'a list \<Rightarrow> int \<Rightarrow> 'a \<Rightarrow> 'a list option" where
  "store xs p v = (if 0 \<le> p \<and> p < int (length xs) then Some (xs[nat p := v]) else None)"

subsection \<open>gl/context.c\<close>

text \<open>
  \<open>GL_context_initialize\<close>, without the palette (\<open>GL_palette_greyscale\<close> is not
  among the sources, so the palette is a parameter) and without the allocation failures:
  the VRAM, the row table \<open>vram_rows[i] = vram + width * i\<close>, the identity shifting
  table and the transparency table with index 0 alone transparent.
\<close>

definition GL_context_initialize :: "GL_Palette_t \<Rightarrow> GL_Color_t \<Rightarrow> nat \<Rightarrow> nat \<Rightarrow> GL_Context_t" where
  "GL_context_initialize greyscale c0 w h =
     \<lparr> GL_Context_t.width = w, GL_Context_t.height = h,
       vram = replicate (w * h) c0,
       vram_rows = map (\<lambda>i. int (w * i)) [0..<h],
       vram_size = w * h,
       background = 0,
       shifting = map of_nat [0..<GL_MAX_PALETTE_COLORS],
       transparent = (map (\<lambda>i. 0) [0..<GL_MAX_PALETTE_COLORS])[0 := 1],
       palette = greyscale \<rparr>"

text \<open>The inner loop of \<open>GL_context_blit\<close>: \<open>for (j = 0; j < tile.width; ++j)\<close>,
  as a recursion on the number of pixels left; it returns the advanced pointers.\<close>

fun blit_row :: "GL_Context_t \<Rightarrow> GL_Surface_t \<Rightarrow> nat \<Rightarrow> int \<Rightarrow> int \<Rightarrow> GL_Color_t list
    \<Rightarrow> (int \<times> int \<times> GL_Color_t list) option" where
  "blit_row context surface 0 src dst vm = Some (src, dst, vm)"
| "blit_row context surface (Suc n) src dst vm =
     do {
       pixel \<leftarrow> load (data surface) src;
       index \<leftarrow> load (shifting context) (int (unat pixel));
       t \<leftarrow> load (transparent context) (int (unat index));
       if t \<noteq> 0 then blit_row context surface n (src + 1) (dst + 1) vm
       else do {
         color \<leftarrow> load (colors (palette context)) (int (unat index));
         vm' \<leftarrow> store vm dst color;
         blit_row context surface n (src + 1) (dst + 1) vm'
       }
     }"

text \<open>The outer loop, \<open>for (i = 0; i < tile.height; ++i)\<close>. In
  \<open>GL_context_blit\<close> below, the parameter \<open>scale\<close> is written \<open>scale'\<close>
  (\<open>scale\<close> is a field of the display's configuration); neither it nor
  \<open>rotation\<close> is read.\<close>

fun blit_rows :: "GL_Context_t \<Rightarrow> GL_Surface_t \<Rightarrow> nat \<Rightarrow> int \<Rightarrow> int \<Rightarrow> nat \<Rightarrow> int \<Rightarrow> int
    \<Rightarrow> GL_Color_t list \<Rightarrow> GL_Color_t list option" where
  "blit_rows context surface tile_width src_skip dst_skip 0 src dst vm = Some vm"
| "blit_rows context surface tile_width src_skip dst_skip (Suc m) src dst vm =
     do {
       (src', dst', vm') \<leftarrow> blit_row context surface tile_width src dst vm;
       blit_rows context surface tile_width src_skip dst_skip m (src' + src_skip) (dst' + dst_skip) vm'
     }"

definition GL_context_blit :: "GL_Context_t \<Rightarrow> GL_Surface_t \<Rightarrow> GL_Rectangle_t \<Rightarrow> GL_Point_t
    \<Rightarrow> real \<Rightarrow> real \<Rightarrow> GL_Context_t option" where
  "GL_context_blit context surface tile position scale' rotation =
     do {
       src_row \<leftarrow> load (data_rows surface) (y tile);
       dst_row \<leftarrow> load (vram_rows context) (y position);
       let src = src_row + x tile;
       let dst = dst_row + x position;
       let src_skip = int (GL_Surface_t.width surface) - int (GL_Rectangle_t.width tile);
       let dst_skip = int (GL_Context_t.width context) - int (GL_Rectangle_t.width tile);
       vm' \<leftarrow> blit_rows context surface (GL_Rectangle_t.width tile) src_skip dst_skip (GL_Rectangle_t.height tile) src dst (vram context);
       Some (context\<lparr>vram := vm'\<rparr>)
     }"

text \<open>\<open>GL_context_blit_fast\<close> has loops of its own in the source, and so here.\<close>

fun blit_fast_row :: "GL_Context_t \<Rightarrow> GL_Surface_t \<Rightarrow> nat \<Rightarrow> int \<Rightarrow> int \<Rightarrow> GL_Color_t list
    \<Rightarrow> (int \<times> int \<times> GL_Color_t list) option" where
  "blit_fast_row context surface 0 src dst vm = Some (src, dst, vm)"
| "blit_fast_row context surface (Suc n) src dst vm =
     do {
       pixel \<leftarrow> load (data surface) src;
       index \<leftarrow> load (shifting context) (int (unat pixel));
       t \<leftarrow> load (transparent context) (int (unat index));
       if t \<noteq> 0 then blit_fast_row context surface n (src + 1) (dst + 1) vm
       else do {
         color \<leftarrow> load (colors (palette context)) (int (unat index));
         vm' \<leftarrow> store vm dst color;
         blit_fast_row context surface n (src + 1) (dst + 1) vm'
       }
     }"

fun blit_fast_rows :: "GL_Context_t \<Rightarrow> GL_Surface_t \<Rightarrow> nat \<Rightarrow> int \<Rightarrow> int \<Rightarrow> nat \<Rightarrow> int \<Rightarrow> int
    \<Rightarrow> GL_Color_t list \<Rightarrow> GL_Color_t list option" where
  "blit_fast_rows context surface tile_width src_skip dst_skip 0 src dst vm = Some vm"
| "blit_fast_rows context surface tile_width src_skip dst_skip (Suc m) src dst vm =
     do {
       (src', dst', vm') \<leftarrow> blit_fast_row context surface tile_width src dst vm;
       blit_fast_rows context surface tile_width src_skip dst_skip m (src' + src_skip) (dst' + dst_skip) vm'
     }"

definition GL_context_blit_fast :: "GL_Context_t \<Rightarrow> GL_Surface_t \<Rightarrow> GL_Rectangle_t \<Rightarrow> GL_Point_t
    \<Rightarrow> GL_Context_t option" where
  "GL_context_blit_fast context surface tile position =
     do {
       src_row \<leftarrow> load (data_rows surface) (y tile);
       dst_row \<leftarrow> load (vram_rows context) (y position);
       let src = src_row + x tile;
       let dst = dst_row + x position;
       let src_skip = int (GL_Surface_t.width surface) - int (GL_Rectangle_t.width tile);
       let dst_skip = int (GL_Context_t.width context) - int (GL_Rectangle_t.width tile);
       vm' \<leftarrow> blit_fast_rows context surface (GL_Rectangle_t.width tile) src_skip dst_skip (GL_Rectangle_t.height tile) src dst (vram context);
       Some (context\<lparr>vram := vm'\<rparr>)
     }"

subsection \<open>gl/primitive.c\<close>

definition GL_is_visible :: "GL_Context_t \<Rightarrow> GL_Point_t \<Rightarrow> bool" where
  "GL_is_visible gl position = True"

definition GL_primitive_point :: "GL_Context_t \<Rightarrow> GL_Point_t \<Rightarrow> GL_Pixel_t \<Rightarrow> GL_Context_t option" where
  "GL_primitive_point gl position color =
     (if \<not> GL_is_visible gl position then Some gl
      else do {
        index \<leftarrow> load (shifting gl) (int (unat color));
        t \<leftarrow> load (transparent gl) (int (unat index));
        if t \<noteq> 0 then Some gl
        else do {
          rgba \<leftarrow> load (colors (palette gl)) (int (unat index));
          row \<leftarrow> load (vram_rows gl) (y position);
          vm' \<leftarrow> store (vram gl) (row + x position) rgba;
          Some (gl\<lparr>vram := vm'\<rparr>)
        }
      })"

text \<open>The loop of \<open>GL_primitive_hline\<close>: \<open>*(dst++) = rgba\<close>, \<open>width\<close> times.\<close>

fun hline_loop :: "nat \<Rightarrow> int \<Rightarrow> GL_Color_t \<Rightarrow> GL_Color_t list \<Rightarrow> GL_Color_t list option" where
  "hline_loop 0 dst rgba vm = Some vm"
| "hline_loop (Suc n) dst rgba vm =
     do { vm' \<leftarrow> store vm dst rgba; hline_loop n (dst + 1) rgba vm' }"

definition GL_primitive_hline :: "GL_Context_t \<Rightarrow> GL_Point_t \<Rightarrow> nat \<Rightarrow> GL_Pixel_t \<Rightarrow> GL_Context_t option" where
  "GL_primitive_hline gl origin w color =
     (if \<not> GL_is_visible gl origin then Some gl
      else do {
        index \<leftarrow> load (shifting gl) (int (unat color));
        t \<leftarrow> load (transparent gl) (int (unat index));
        if t \<noteq> 0 then Some gl
        else do {
          rgba \<leftarrow> load (colors (palette gl)) (int (unat index));
          row \<leftarrow> load (vram_rows gl) (y origin);
          vm' \<leftarrow> hline_loop w (row + x origin) rgba (vram gl);
          Some (gl\<lparr>vram := vm'\<rparr>)
        }
      })"

text \<open>
  The loop of \<open>GL_primitive_vline\<close>. Its body declares \<open>dst\<close> anew in every round,
  from \<open>gl->vram_rows[origin.y] + origin.x\<close>; the increment of \<open>*(dst++)\<close> is lost
  at the end of the round.
\<close>

fun vline_loop :: "GL_Context_t \<Rightarrow> GL_Point_t \<Rightarrow> nat \<Rightarrow> GL_Color_t \<Rightarrow> GL_Color_t list
    \<Rightarrow> GL_Color_t list option" where
  "vline_loop gl origin 0 rgba vm = Some vm"
| "vline_loop gl origin (Suc n) rgba vm =
     do {
       row \<leftarrow> load (vram_rows gl) (y origin);
       let dst = row + x origin;
       vm' \<leftarrow> store vm dst rgba;
       vline_loop gl origin n rgba vm'
     }"

definition GL_primitive_vline :: "GL_Context_t \<Rightarrow> GL_Point_t \<Rightarrow> nat \<Rightarrow> GL_Pixel_t \<Rightarrow> GL_Context_t option" where
  "GL_primitive_vline gl origin h color =
     (if \<not> GL_is_visible gl origin then Some gl
      else do {
        index \<leftarrow> load (shifting gl) (int (unat color));
        t \<leftarrow> load (transparent gl) (int (unat index));
        if t \<noteq> 0 then Some gl
        else do {
          rgba \<leftarrow> load (colors (palette gl)) (int (unat index));
          vm' \<leftarrow> vline_loop gl origin h rgba (vram gl);
          Some (gl\<lparr>vram := vm'\<rparr>)
        }
      })"

subsection \<open>Well-formed contexts and surfaces\<close>

text \<open>
  What \<open>GL_context_initialize\<close> establishes and the drawing functions rely on: the row
  table points at the rows of a \<open>width * height\<close> buffer, and the three tables have
  \<open>GL_MAX_PALETTE_COLORS\<close> entries. A surface has the same shape.
\<close>

definition GL_context_wf :: "GL_Context_t \<Rightarrow> bool" where
  "GL_context_wf gl \<longleftrightarrow>
     vram_rows gl = map (\<lambda>i. int (GL_Context_t.width gl * i)) [0..<GL_Context_t.height gl] \<and>
     length (vram gl) = GL_Context_t.width gl * GL_Context_t.height gl \<and>
     length (shifting gl) = GL_MAX_PALETTE_COLORS \<and>
     length (transparent gl) = GL_MAX_PALETTE_COLORS \<and>
     length (colors (palette gl)) = GL_MAX_PALETTE_COLORS"

definition GL_surface_wf :: "GL_Surface_t \<Rightarrow> bool" where
  "GL_surface_wf surface \<longleftrightarrow>
     data_rows surface = map (\<lambda>i. int (GL_Surface_t.width surface * i)) [0..<GL_Surface_t.height surface] \<and>
     length (data surface) = GL_Surface_t.width surface * GL_Surface_t.height surface"

subsection \<open>A concrete context and surface\<close>

text \<open>
  A 4 by 3 context as \<open>GL_context_initialize\<close> leaves it, with a palette of 256 greys
  and a cleared buffer, and a 2 by 2 surface whose pixels 0 are transparent by default.
\<close>

definition example_palette :: GL_Palette_t where
  "example_palette = \<lparr> colors = map (\<lambda>i. \<lparr> r = of_nat i, g = of_nat i, b = of_nat i, a = 255 \<rparr>) [0..<256] \<rparr>"

definition example_context :: GL_Context_t where
  "example_context = GL_context_initialize example_palette \<lparr> r = 0, g = 0, b = 0, a = 0 \<rparr> 4 3"

definition example_surface :: GL_Surface_t where
  "example_surface = \<lparr> GL_Surface_t.width = 2, GL_Surface_t.height = 2, data = [0, 7, 9, 0], data_rows = [0, 2] \<rparr>"

section \<open>The engine loop (core/engine.c)\<close>

text \<open>
  One round of the loop of \<open>Engine_run\<close>. The clock is outside the program, so the
  time \<open>elapsed\<close> since the previous round is an input of the round, and the wait at
  its end is left out. The constants that \<open>Engine_run\<close> computes before the loop,
  \<open>delta_time\<close> and \<open>skippable_frames\<close>, are parameters.

  \<open>lag\<close>, \<open>delta_time\<close> and \<open>elapsed\<close> are C \<open>float\<close>s. Their type
  \<open>'f\<close> and the four operations that the round applies to them (\<open>+\<close>, \<open>-\<close>,
  \<open>/\<close> and \<open>>=\<close>) are a parameter of the model, so that what is proved of the
  round holds whatever the floating-point arithmetic does. \<open>environment.time\<close> is
  declared in a header that is not among the sources; it is advanced here with the same
  addition, and no property of the round stated below reads it.
  \<open>skippable_frames\<close> is a \<open>size_t\<close> that is only counted down, a \<open>nat\<close>.
\<close>

record 'f Float_ops =
  float_add :: "'f \<Rightarrow> 'f \<Rightarrow> 'f"
  float_sub :: "'f \<Rightarrow> 'f \<Rightarrow> 'f"
  float_div :: "'f \<Rightarrow> 'f \<Rightarrow> 'f"
  float_ge :: "'f \<Rightarrow> 'f \<Rightarrow> bool"

text \<open>
  The interpreter (\<open>Interpreter_process\<close>, \<open>Interpreter_update\<close>,
  \<open>Interpreter_render\<close>) runs the script and is not among the sources: it is a
  parameter, three functions on an interpreter state of any type that answer whether to
  go on. Every call to a subsystem is recorded, in order, in \<open>calls\<close>.
\<close>

datatype 'f call =
  Call_Input_process
  | Call_Interpreter_process
  | Call_Interpreter_update 'f
  | Call_Audio_update 'f
  | Call_Input_update 'f
  | Call_Display_update 'f
  | Call_Interpreter_render 'f
  | Call_Display_present

record ('f, 'i) Interpreter_t =
  Interpreter_process :: "'i \<Rightarrow> bool \<times> 'i"
  Interpreter_update :: "'i \<Rightarrow> 'f \<Rightarrow> bool \<times> 'i"
  Interpreter_render :: "'i \<Rightarrow> 'f \<Rightarrow> bool \<times> 'i"

text \<open>The variables of the loop: \<open>running\<close> and \<open>lag\<close> are locals of
  \<open>Engine_run\<close>, \<open>time\<close> is \<open>engine->environment.time\<close>.\<close>

record ('f, 'i) Engine_t =
  interpreter :: 'i
  time :: 'f
  running :: bool
  lag :: 'f
  calls :: "'f call list"

text \<open>\<open>running = running && Interpreter_process(...)\<close>: the call is made only while
  \<open>running\<close> holds, and the same for the other two.\<close>

definition process_step :: "('f, 'i) Interpreter_t \<Rightarrow> ('f, 'i) Engine_t \<Rightarrow> ('f, 'i) Engine_t" where
  "process_step script engine =
     (if running engine
      then (let (go_on, i) = Interpreter_process script (interpreter engine)
            in engine\<lparr>interpreter := i, running := go_on,
                      calls := calls engine @ [Call_Interpreter_process]\<rparr>)
      else engine)"

definition update_step :: "('f, 'i) Interpreter_t \<Rightarrow> 'f \<Rightarrow> ('f, 'i) Engine_t \<Rightarrow> ('f, 'i) Engine_t" where
  "update_step script delta_time engine =
     (if running engine
      then (let (go_on, i) = Interpreter_update script (interpreter engine) delta_time
            in engine\<lparr>interpreter := i, running := go_on,
                      calls := calls engine @ [Call_Interpreter_update delta_time]\<rparr>)
      else engine)"

definition render_step :: "('f, 'i) Interpreter_t \<Rightarrow> 'f \<Rightarrow> ('f, 'i) Engine_t \<Rightarrow> ('f, 'i) Engine_t" where
  "render_step script ratio engine =
     (if running engine
      then (let (go_on, i) = Interpreter_render script (interpreter engine) ratio
            in engine\<lparr>interpreter := i, running := go_on,
                      calls := calls engine @ [Call_Interpreter_render ratio]\<rparr>)
      else engine)"

text \<open>
  \<open>for (size_t frames = skippable_frames; frames && (lag >= delta_time); --frames)\<close>,
  with the body: the time advances, the fixed update runs (if still running), the lag
  shrinks.
\<close>

fun fixed_updates :: "'f Float_ops \<Rightarrow> ('f, 'i) Interpreter_t \<Rightarrow> 'f \<Rightarrow> nat \<Rightarrow> ('f, 'i) Engine_t
    \<Rightarrow> ('f, 'i) Engine_t" where
  "fixed_updates ops script delta_time 0 engine = engine"
| "fixed_updates ops script delta_time (Suc frames) engine =
     (if float_ge ops (lag engine) delta_time
      then (let e1 = engine\<lparr>time := float_add ops (time engine) delta_time\<rparr>;
                e2 = update_step script delta_time e1;
                e3 = e2\<lparr>lag := float_sub ops (lag e2) delta_time\<rparr>
            in fixed_updates ops script delta_time frames e3)
      else engine)"

text \<open>The round up to the updates of the subsystems, that is, all that comes before
  the call of \<open>Interpreter_render\<close>.\<close>

definition Engine_run_simulate :: "'f Float_ops \<Rightarrow> ('f, 'i) Interpreter_t \<Rightarrow> 'f \<Rightarrow> nat \<Rightarrow> 'f
    \<Rightarrow> ('f, 'i) Engine_t \<Rightarrow> ('f, 'i) Engine_t" where
  "Engine_run_simulate ops script delta_time skippable_frames elapsed engine =
     (let e1 = engine\<lparr>calls := calls engine @ [Call_Input_process]\<rparr>;
          e2 = process_step script e1;
          e3 = e2\<lparr>lag := float_add ops (lag e2) elapsed\<rparr>;
          e4 = fixed_updates ops script delta_time skippable_frames e3
      in e4\<lparr>calls := calls e4 @ [Call_Audio_update elapsed, Call_Input_update elapsed,
                                   Call_Display_update elapsed]\<rparr>)"

text \<open>The whole round: then \<open>Interpreter_render\<close> with \<open>lag / delta_time\<close>, and
  \<open>Display_present\<close>.\<close>

definition Engine_run_iteration :: "'f Float_ops \<Rightarrow> ('f, 'i) Interpreter_t \<Rightarrow> 'f \<Rightarrow> nat \<Rightarrow> 'f
    \<Rightarrow> ('f, 'i) Engine_t \<Rightarrow> ('f, 'i) Engine_t" where
  "Engine_run_iteration ops script delta_time skippable_frames elapsed engine =
     (let e5 = Engine_run_simulate ops script delta_time skippable_frames elapsed engine;
          e6 = render_step script (float_div ops (lag e5) delta_time) e5
      in e6\<lparr>calls := calls e6 @ [Call_Display_present]\<rparr>)"

subsection \<open>Reading the calls of a round\<close>

text \<open>The calls of the fixed update and of render in a record of calls.\<close>

fun is_update :: "'f call \<Rightarrow> bool" where
  "is_update (Call_Interpreter_update d) = True"
| "is_update c = False"

fun is_render :: "'f call \<Rightarrow> bool" where
  "is_render (Call_Interpreter_render f) = True"
| "is_render c = False"

definition updates :: "'f call list \<Rightarrow> nat" where
  "updates cs = length (filter is_update cs)"

definition renders :: "'f call list \<Rightarrow> 'f call list" where
  "renders cs = filter is_render cs"

text \<open>
  What the spec's lazy short-circuit asks of \<open>n\<close> fixed steps that start with the flag
  \<open>go\<close> and the interpreter state \<open>i\<close>: the update is called while the flag holds,
  its answer is the new flag, and once the flag is down no step calls it again.
  \<open>lazy_calls\<close> counts the calls, \<open>lazy_running\<close> is the flag after the steps.
\<close>

fun lazy_calls :: "('f, 'i) Interpreter_t \<Rightarrow> 'f \<Rightarrow> nat \<Rightarrow> bool \<Rightarrow> 'i \<Rightarrow> nat" where
  "lazy_calls script d 0 go i = 0"
| "lazy_calls script d (Suc n) go i =
     (if go
      then (case Interpreter_update script i d of (go', i') \<Rightarrow> Suc (lazy_calls script d n go' i'))
      else 0)"

fun lazy_running :: "('f, 'i) Interpreter_t \<Rightarrow> 'f \<Rightarrow> nat \<Rightarrow> bool \<Rightarrow> 'i \<Rightarrow> bool" where
  "lazy_running script d 0 go i = go"
| "lazy_running script d (Suc n) go i =
     (if go
      then (case Interpreter_update script i d of (go', i') \<Rightarrow> lazy_running script d n go' i')
      else False)"

subsection \<open>The arithmetic of binary32\<close>

text \<open>
  IEEE 754 binary32 with rounding to nearest, ties to even, on the finite numbers: a
  \<open>float\<close> is the real number it stands for, and an operation is the exact one
  followed by \<open>binary32_round\<close>. \<open>binade fuel v\<close> is the exponent \<open>e\<close> with
  \<open>2 ^ e \<le> v < 2 ^ (e + 1)\<close> (the fuel of 300 halvings or doublings covers the range
  of binary32); exponents below -126 are the subnormal numbers, with the spacing of
  exponent -126. A number has 24 significant bits, so the spacing at exponent \<open>e\<close> is
  \<open>2 ^ (e - 23)\<close>. Infinities and NaN are not represented: the arithmetic is to be used
  where results stay below \<open>2 ^ 128\<close> and no division by zero occurs.
\<close>

fun binade :: "nat \<Rightarrow> real \<Rightarrow> int" where
  "binade 0 v = 0"
| "binade (Suc fuel) v =
     (if 2 \<le> v then binade fuel (v / 2) + 1
      else if v < 1 then binade fuel (v * 2) - 1
      else 0)"

definition round_half_even :: "real \<Rightarrow> int" where
  "round_half_even v =
     (let m = \<lfloor>v\<rfloor>; rest = v - of_int m
      in if rest < 1/2 then m else if 1/2 < rest then m + 1 else if even m then m else m + 1)"

definition binary32_round :: "real \<Rightarrow> real" where
  "binary32_round v =
     (if v = 0 then 0
      else let e = max (binade 300 \<bar>v\<bar>) (-126);
               q = (if 23 \<le> e then 2 ^ nat (e - 23) else 1 / 2 ^ nat (23 - e))
           in sgn v * (of_int (round_half_even (\<bar>v\<bar> / q)) * q))"

definition binary32 :: "real Float_ops" where
  "binary32 =
     \<lparr> float_add = (\<lambda>u v. binary32_round (u + v)), float_sub = (\<lambda>u v. binary32_round (u - v)),
       float_div = (\<lambda>u v. binary32_round (u / v)), float_ge = (\<lambda>u v. u \<ge> v) \<rparr>"

subsection \<open>Concrete scripts\<close>

text \<open>Two scripts: one that always goes on, and one whose \<open>process\<close> asks to stop;
  and the state in which \<open>Engine_run\<close> enters its loop.\<close>

definition steady_script :: "(real, unit) Interpreter_t" where
  "steady_script = \<lparr> Interpreter_process = (\<lambda>i. (True, i)),
                      Interpreter_update = (\<lambda>i d. (True, i)),
                      Interpreter_render = (\<lambda>i f. (True, i)) \<rparr>"

definition stopping_script :: "(real, unit) Interpreter_t" where
  "stopping_script = \<lparr> Interpreter_process = (\<lambda>i. (False, i)),
                        Interpreter_update = (\<lambda>i d. (True, i)),
                        Interpreter_render = (\<lambda>i f. (True, i)) \<rparr>"

definition engine_start :: "(real, unit) Engine_t" where
  "engine_start = \<lparr> interpreter = (), time = 0, running = True, lag = 0, calls = [] \<rparr>"

section \<open>The FPS estimator (core/engine.c)\<close>

text \<open>
  \<open>_calculate_fps\<close> (here \<open>calculate_fps\<close>) keeps three static variables: the
  samples, the index of the oldest one and the running sum \<open>sum\<close> (here
  \<open>samples_sum\<close>), all zero at the start. \<open>FPS_AVERAGE_SAMPLES\<close> is defined in a
  header that is not among the sources: its value \<open>N\<close> and its conversion to
  \<open>float\<close>, \<open>count\<close>, are parameters. The arithmetic is the parameter \<open>ops\<close>
  of the engine loop. An index outside the array, and the remainder by \<open>N = 0\<close>, are
  undefined behaviour, the value \<open>None\<close>.
\<close>

record 'f Fps_t =
  samples :: "'f list"
  index :: nat
  samples_sum :: 'f




section \<open>Properties of the rasterizer\<close>

subsection \<open>The two blit paths\<close>

lemma blit_fast_row_eq:
  "blit_fast_row context surface n src dst vm = blit_row context surface n src dst vm"
proof (induction n arbitrary: src dst vm)
  case 0
  show ?case by simp
next
  case (Suc n)
  have step: "blit_fast_row context surface n s d = blit_row context surface n s d" for s d
    by (rule ext) (rule Suc.IH)
  show ?case by (simp add: step cong: if_cong)
qed

lemma blit_fast_rows_eq:
  "blit_fast_rows context surface w ss ds m src dst vm
     = blit_rows context surface w ss ds m src dst vm"
proof (induction m arbitrary: src dst vm)
  case 0
  show ?case by simp
next
  case (Suc m)
  have row: "blit_fast_row context surface w src dst = blit_row context surface w src dst"
    by (rule ext) (rule blit_fast_row_eq)
  have step: "blit_fast_rows context surface w ss ds m s d = blit_rows context surface w ss ds m s d"
    for s d
    by (rule ext) (rule Suc.IH)
  show ?case by (simp add: row step)
qed

subsection \<open>What a blit and a primitive write\<close>

lemma load_nat: "k < length xs \<Longrightarrow> load xs (int k) = Some (xs ! k)"
  by (simp add: load_def)

lemma store_nat: "k < length xs \<Longrightarrow> store xs (int k) v = Some (xs[k := v])"
  by (simp add: store_def)

lemma load_pixel: "length xs = GL_MAX_PALETTE_COLORS \<Longrightarrow> load xs (int (unat (p :: 8 word))) = Some (xs ! unat p)"
proof -
  assume len: "length xs = GL_MAX_PALETTE_COLORS"
  have "unat p < 2 ^ LENGTH(8)" by (rule unsigned_less)
  then have "unat p < length xs" by (simp add: len GL_MAX_PALETTE_COLORS_def)
  then show ?thesis by (rule load_nat)
qed

lemma load_pixel_uint: "length xs = GL_MAX_PALETTE_COLORS \<Longrightarrow> load xs (uint (p :: 8 word)) = Some (xs ! unat p)"
  using load_pixel[of xs p] by simp

lemma blit_row_spec:
  assumes tabs: "length (shifting gl) = GL_MAX_PALETTE_COLORS"
      "length (transparent gl) = GL_MAX_PALETTE_COLORS"
      "length (colors (palette gl)) = GL_MAX_PALETTE_COLORS"
    and src: "s0 + n \<le> length (data sf)" and dst: "d0 + n \<le> length vm"
  shows "\<exists>vm'. blit_row gl sf n (int s0) (int d0) vm = Some (int (s0 + n), int (d0 + n), vm')
      \<and> length vm' = length vm
      \<and> (\<forall>k<length vm. vm' ! k =
           (if d0 \<le> k \<and> k < d0 + n
               \<and> transparent gl ! unat (shifting gl ! unat (data sf ! (s0 + (k - d0)))) = 0
            then colors (palette gl) ! unat (shifting gl ! unat (data sf ! (s0 + (k - d0))))
            else vm ! k))"
  using src dst
proof (induction n arbitrary: s0 d0 vm)
  case 0
  show ?case by auto
next
  case (Suc n)
  let ?ix = "shifting gl ! unat (data sf ! s0)"
  have ld: "load (data sf) (int s0) = Some (data sf ! s0)"
    using Suc.prems by (simp add: load_nat)
  have next_src: "int s0 + 1 = int (Suc s0)" and next_dst: "int d0 + 1 = int (Suc d0)"
    by simp_all
  show ?case
  proof (cases "transparent gl ! unat ?ix = 0")
    case False
    from Suc.IH[of "Suc s0" "Suc d0" vm] Suc.prems
    obtain vm' where r: "blit_row gl sf n (int (Suc s0)) (int (Suc d0)) vm
          = Some (int (Suc s0 + n), int (Suc d0 + n), vm')"
      and l: "length vm' = length vm"
      and c: "\<forall>k<length vm. vm' ! k =
           (if Suc d0 \<le> k \<and> k < Suc d0 + n
               \<and> transparent gl ! unat (shifting gl ! unat (data sf ! (Suc s0 + (k - Suc d0)))) = 0
            then colors (palette gl) ! unat (shifting gl ! unat (data sf ! (Suc s0 + (k - Suc d0))))
            else vm ! k)"
      by auto
    have run: "blit_row gl sf (Suc n) (int s0) (int d0) vm = Some (int (s0 + Suc n), int (d0 + Suc n), vm')"
      using False by (simp add: ld load_pixel load_pixel_uint tabs next_src next_dst r del: of_nat_Suc)
    have cells: "vm' ! k =
           (if d0 \<le> k \<and> k < d0 + Suc n
               \<and> transparent gl ! unat (shifting gl ! unat (data sf ! (s0 + (k - d0)))) = 0
            then colors (palette gl) ! unat (shifting gl ! unat (data sf ! (s0 + (k - d0))))
            else vm ! k)" if k: "k < length vm" for k
    proof (cases "k = d0")
      case True
      then show ?thesis using c k False by simp
    next
      case ne: False
      have "Suc s0 + (k - Suc d0) = s0 + (k - d0)" if "Suc d0 \<le> k"
        using that by simp
      then show ?thesis using c k ne by (auto simp: Suc_le_eq)
    qed
    show ?thesis using run l cells by blast
  next
    case True
    let ?vm1 = "vm[d0 := colors (palette gl) ! unat ?ix]"
    have st: "store vm (int d0) (colors (palette gl) ! unat ?ix) = Some ?vm1"
      using Suc.prems by (simp add: store_nat)
    from Suc.IH[of "Suc s0" "Suc d0" ?vm1] Suc.prems
    obtain vm' where r: "blit_row gl sf n (int (Suc s0)) (int (Suc d0)) ?vm1
          = Some (int (Suc s0 + n), int (Suc d0 + n), vm')"
      and l: "length vm' = length vm"
      and c: "\<forall>k<length vm. vm' ! k =
           (if Suc d0 \<le> k \<and> k < Suc d0 + n
               \<and> transparent gl ! unat (shifting gl ! unat (data sf ! (Suc s0 + (k - Suc d0)))) = 0
            then colors (palette gl) ! unat (shifting gl ! unat (data sf ! (Suc s0 + (k - Suc d0))))
            else ?vm1 ! k)"
      by auto
    have run: "blit_row gl sf (Suc n) (int s0) (int d0) vm = Some (int (s0 + Suc n), int (d0 + Suc n), vm')"
      using True by (simp add: ld load_pixel load_pixel_uint tabs st next_src next_dst r del: of_nat_Suc)
    have cells: "vm' ! k =
           (if d0 \<le> k \<and> k < d0 + Suc n
               \<and> transparent gl ! unat (shifting gl ! unat (data sf ! (s0 + (k - d0)))) = 0
            then colors (palette gl) ! unat (shifting gl ! unat (data sf ! (s0 + (k - d0))))
            else vm ! k)" if k: "k < length vm" for k
    proof (cases "k = d0")
      case eq: True
      then show ?thesis using c k True by simp
    next
      case ne: False
      have "Suc s0 + (k - Suc d0) = s0 + (k - d0)" if "Suc d0 \<le> k"
        using that by simp
      then show ?thesis using c k ne by (auto simp: Suc_le_eq)
    qed
    show ?thesis using run l cells by blast
  qed
qed


lemma blit_rows_spec:
  fixes gl :: GL_Context_t and sf :: GL_Surface_t
  defines "res \<equiv> \<lambda>p old. if transparent gl ! unat (shifting gl ! unat p) = 0
                        then colors (palette gl) ! unat (shifting gl ! unat p) else old"
  assumes tabs: "length (shifting gl) = GL_MAX_PALETTE_COLORS"
      "length (transparent gl) = GL_MAX_PALETTE_COLORS"
      "length (colors (palette gl)) = GL_MAX_PALETTE_COLORS"
    and w: "w \<le> W" "w \<le> SW"
    and src: "m \<noteq> 0 \<Longrightarrow> s0 + (m - 1) * SW + w \<le> length (data sf)"
    and dst: "m \<noteq> 0 \<Longrightarrow> d0 + (m - 1) * W + w \<le> length vm"
  shows "\<exists>vm'. blit_rows gl sf w (int SW - int w) (int W - int w) m (int s0) (int d0) vm = Some vm'
      \<and> length vm' = length vm
      \<and> (\<forall>i<m. \<forall>j<w. vm' ! (d0 + i * W + j) = res (data sf ! (s0 + i * SW + j)) (vm ! (d0 + i * W + j)))
      \<and> (\<forall>k<length vm. (\<forall>i<m. \<forall>j<w. k \<noteq> d0 + i * W + j) \<longrightarrow> vm' ! k = vm ! k)"
  using src dst
proof (induction m arbitrary: s0 d0 vm)
  case 0
  show ?case by simp
next
  case (Suc m)
  have s_row: "s0 + w \<le> length (data sf)" and d_row: "d0 + w \<le> length vm"
    using Suc.prems by (simp_all add: add.commute add.left_commute trans_le_add2)
  from blit_row_spec[OF tabs s_row d_row]
  obtain vm1 where r1: "blit_row gl sf w (int s0) (int d0) vm = Some (int (s0 + w), int (d0 + w), vm1)"
    and l1: "length vm1 = length vm"
    and c1: "\<forall>k<length vm. vm1 ! k = (if d0 \<le> k \<and> k < d0 + w then res (data sf ! (s0 + (k - d0))) (vm ! k) else vm ! k)"
    unfolding res_def by (auto cong: if_cong)
  have s_next: "int (s0 + w) + (int SW - int w) = int (s0 + SW)"
    and d_next: "int (d0 + w) + (int W - int w) = int (d0 + W)"
    by simp_all
  have s_rest: "m \<noteq> 0 \<Longrightarrow> (s0 + SW) + (m - 1) * SW + w \<le> length (data sf)"
  proof -
    assume "m \<noteq> 0"
    then have "(m - 1) * SW + SW = m * SW" by (cases m) simp_all
    then show ?thesis using Suc.prems(1) by simp
  qed
  have d_rest: "m \<noteq> 0 \<Longrightarrow> (d0 + W) + (m - 1) * W + w \<le> length vm1"
  proof -
    assume "m \<noteq> 0"
    then have "(m - 1) * W + W = m * W" by (cases m) simp_all
    then show ?thesis using Suc.prems(2) l1 by simp
  qed
  from Suc.IH[OF s_rest d_rest]
  obtain vm' where r: "blit_rows gl sf w (int SW - int w) (int W - int w) m (int (s0 + SW)) (int (d0 + W)) vm1 = Some vm'"
    and l: "length vm' = length vm1"
    and inside: "\<forall>i<m. \<forall>j<w. vm' ! (d0 + W + i * W + j) = res (data sf ! (s0 + SW + i * SW + j)) (vm1 ! (d0 + W + i * W + j))"
    and outside: "\<forall>k<length vm1. (\<forall>i<m. \<forall>j<w. k \<noteq> d0 + W + i * W + j) \<longrightarrow> vm' ! k = vm1 ! k"
    by blast
  have run: "blit_rows gl sf w (int SW - int w) (int W - int w) (Suc m) (int s0) (int d0) vm = Some vm'"
    using r by (simp add: r1 s_next d_next del: of_nat_add)
  have in_bounds: "d0 + i * W + j < length vm" if "i < Suc m" "j < w" for i j
  proof -
    have "i \<le> m" using that(1) by simp
    then have "i * W \<le> m * W" by (rule mult_le_mono1)
    moreover have "d0 + m * W + w \<le> length vm" using Suc.prems(2) by simp
    ultimately show ?thesis using that(2) by linarith
  qed
  have cells: "vm' ! (d0 + i * W + j) = res (data sf ! (s0 + i * SW + j)) (vm ! (d0 + i * W + j))"
    if ij: "i < Suc m" "j < w" for i j
  proof (cases i)
    case 0
    have "d0 + j \<noteq> d0 + W + i' * W + j'" for i' j'
      using ij(2) w(1) by simp
    then have "vm' ! (d0 + j) = vm1 ! (d0 + j)"
      using outside in_bounds[of 0 j] ij l1 by simp
    also have "\<dots> = res (data sf ! (s0 + j)) (vm ! (d0 + j))"
      using c1 in_bounds[of 0 j] ij by simp
    finally show ?thesis using 0 by simp
  next
    case (Suc i')
    then have i': "i' < m" using ij(1) by simp
    have "vm' ! (d0 + W + i' * W + j) = res (data sf ! (s0 + SW + i' * SW + j)) (vm1 ! (d0 + W + i' * W + j))"
      using inside i' ij(2) by blast
    moreover have "vm1 ! (d0 + W + i' * W + j) = vm ! (d0 + W + i' * W + j)"
    proof -
      have "d0 + W + i' * W + j < length vm"
        using in_bounds[of i j] ij Suc by (simp add: add.assoc add.left_commute)
      moreover have "\<not> d0 + W + i' * W + j < d0 + w" using w(1) by simp
      ultimately show ?thesis using c1 by simp
    qed
    ultimately show ?thesis using Suc by (simp add: add.assoc add.left_commute)
  qed
  have frame: "vm' ! k = vm ! k" if k: "k < length vm" and no: "\<forall>i<Suc m. \<forall>j<w. k \<noteq> d0 + i * W + j" for k
  proof -
    have "k \<noteq> d0 + W + i * W + j" if "i < m" "j < w" for i j
      using no[rule_format, of "Suc i" j] that by (simp add: add.assoc add.left_commute)
    then have "vm' ! k = vm1 ! k" using outside k l1 by simp
    moreover have "\<not> (d0 \<le> k \<and> k < d0 + w)"
    proof
      assume "d0 \<le> k \<and> k < d0 + w"
      then have "k - d0 < w" "k = d0 + 0 * W + (k - d0)" by auto
      then show False using no[rule_format, of 0 "k - d0"] by simp
    qed
    ultimately show ?thesis using c1 k by simp
  qed
  show ?case using run l l1 cells frame by auto
qed


lemma row_table: "i < h \<Longrightarrow> load (map (\<lambda>i. int (w * i)) [0..<h]) (int i) = Some (int (w * i))"
  by (simp add: load_def)

lemma block_fits:
  assumes "px + tw \<le> (W::nat)" "py + th \<le> H" "0 < th"
  shows "W * py + px + (th - 1) * W + tw \<le> W * H"
proof -
  have "W * py + px + (th - 1) * W + tw \<le> W * py + (th - 1) * W + W"
    using assms(1) by simp
  also have "\<dots> = W * (py + th)"
    using assms(3) by (cases th) (simp_all add: algebra_simps)
  also have "\<dots> \<le> W * H"
    using assms(2) by simp
  finally show ?thesis .
qed

lemma GL_context_blit_spec:
  assumes wf: "GL_context_wf gl" and swf: "GL_surface_wf sf"
    and tile: "0 \<le> x tile" "0 \<le> y tile" "0 < GL_Rectangle_t.height tile"
      "nat (x tile) + GL_Rectangle_t.width tile \<le> GL_Surface_t.width sf"
      "nat (y tile) + GL_Rectangle_t.height tile \<le> GL_Surface_t.height sf"
    and pos: "0 \<le> x position" "0 \<le> y position"
      "nat (x position) + GL_Rectangle_t.width tile \<le> GL_Context_t.width gl"
      "nat (y position) + GL_Rectangle_t.height tile \<le> GL_Context_t.height gl"
  shows "\<exists>vm'. GL_context_blit gl sf tile position sc rot = Some (gl\<lparr>vram := vm'\<rparr>)
     \<and> length vm' = length (vram gl)
     \<and> (\<forall>i<GL_Rectangle_t.height tile. \<forall>j<GL_Rectangle_t.width tile.
          vm' ! ((nat (y position) + i) * GL_Context_t.width gl + nat (x position) + j) =
            (if transparent gl ! unat (shifting gl ! unat
                   (data sf ! ((nat (y tile) + i) * GL_Surface_t.width sf + nat (x tile) + j))) = 0
             then colors (palette gl) ! unat (shifting gl ! unat
                   (data sf ! ((nat (y tile) + i) * GL_Surface_t.width sf + nat (x tile) + j)))
             else vram gl ! ((nat (y position) + i) * GL_Context_t.width gl + nat (x position) + j)))
     \<and> (\<forall>k<length (vram gl).
          (\<forall>i<GL_Rectangle_t.height tile. \<forall>j<GL_Rectangle_t.width tile.
             k \<noteq> (nat (y position) + i) * GL_Context_t.width gl + nat (x position) + j)
          \<longrightarrow> vm' ! k = vram gl ! k)"
proof -
  define W H SW SH where "W = GL_Context_t.width gl" and "H = GL_Context_t.height gl"
    and "SW = GL_Surface_t.width sf" and "SH = GL_Surface_t.height sf"
  define tw th where "tw = GL_Rectangle_t.width tile" and "th = GL_Rectangle_t.height tile"
  define tx ty px py where "tx = nat (x tile)" and "ty = nat (y tile)"
    and "px = nat (x position)" and "py = nat (y position)"
  note names = W_def H_def SW_def SH_def tw_def th_def tx_def ty_def px_def py_def
  have tabs: "length (shifting gl) = GL_MAX_PALETTE_COLORS"
      "length (transparent gl) = GL_MAX_PALETTE_COLORS"
      "length (colors (palette gl)) = GL_MAX_PALETTE_COLORS"
    using wf by (simp_all add: GL_context_wf_def)
  have rows: "vram_rows gl = map (\<lambda>i. int (W * i)) [0..<H]" and len: "length (vram gl) = W * H"
    using wf by (simp_all add: GL_context_wf_def names)
  have srows: "data_rows sf = map (\<lambda>i. int (SW * i)) [0..<SH]" and slen: "length (data sf) = SW * SH"
    using swf by (simp_all add: GL_surface_wf_def names)
  have xs: "x tile = int tx" "y tile = int ty" "x position = int px" "y position = int py"
    using tile(1,2) pos(1,2) by (simp_all add: names)
  have fit: "0 < th" "tx + tw \<le> SW" "ty + th \<le> SH" "px + tw \<le> W" "py + th \<le> H"
    using tile(3-5) pos(3,4) by (simp_all add: names)
  have ty_row: "load (data_rows sf) (int ty) = Some (int (SW * ty))"
    unfolding srows using fit by (intro row_table) simp
  have py_row: "load (vram_rows gl) (int py) = Some (int (W * py))"
    unfolding rows using fit by (intro row_table) simp
  have start: "int (SW * ty) + int tx = int (SW * ty + tx)" "int (W * py) + int px = int (W * py + px)"
    by simp_all
  have w: "tw \<le> W" "tw \<le> SW" using fit by simp_all
  have src: "th \<noteq> 0 \<Longrightarrow> (SW * ty + tx) + (th - 1) * SW + tw \<le> length (data sf)"
    unfolding slen using fit by (intro block_fits) simp_all
  have dst: "th \<noteq> 0 \<Longrightarrow> (W * py + px) + (th - 1) * W + tw \<le> length (vram gl)"
    unfolding len using fit by (intro block_fits) simp_all
  from blit_rows_spec[OF tabs w src dst]
  obtain vm' where run: "blit_rows gl sf tw (int SW - int tw) (int W - int tw) th
        (int (SW * ty + tx)) (int (W * py + px)) (vram gl) = Some vm'"
    and l: "length vm' = length (vram gl)"
    and inside: "\<forall>i<th. \<forall>j<tw. vm' ! (W * py + px + i * W + j) =
        (if transparent gl ! unat (shifting gl ! unat (data sf ! (SW * ty + tx + i * SW + j))) = 0
         then colors (palette gl) ! unat (shifting gl ! unat (data sf ! (SW * ty + tx + i * SW + j)))
         else vram gl ! (W * py + px + i * W + j))"
    and outside: "\<forall>k<length (vram gl). (\<forall>i<th. \<forall>j<tw. k \<noteq> W * py + px + i * W + j) \<longrightarrow> vm' ! k = vram gl ! k"
    by blast
  have d_ix: "W * py + px + i * W + j = (py + i) * W + px + j" for i j
    by (simp add: algebra_simps)
  have s_ix: "SW * ty + tx + i * SW + j = (ty + i) * SW + tx + j" for i j
    by (simp add: algebra_simps)
  have blit: "GL_context_blit gl sf tile position sc rot = Some (gl\<lparr>vram := vm'\<rparr>)"
    using run by (simp add: GL_context_blit_def ty_row py_row start xs flip: names del: of_nat_add of_nat_mult)
  note inside' = inside[unfolded d_ix s_ix, unfolded names] and outside' = outside[unfolded d_ix, unfolded names]
  show ?thesis
    by (rule exI[of _ vm'], intro conjI) (rule blit l inside' outside')+
qed


lemma GL_context_blit_fast_spec:
  assumes "GL_context_blit gl sf tile position sc rot = Some gl'"
  shows "GL_context_blit_fast gl sf tile position = Some gl'"
  using assms by (simp add: GL_context_blit_def GL_context_blit_fast_def blit_fast_rows_eq)

lemma GL_primitive_point_spec:
  assumes wf: "GL_context_wf gl"
    and pos: "0 \<le> x point" "x point < int (GL_Context_t.width gl)"
      "0 \<le> y point" "y point < int (GL_Context_t.height gl)"
  shows "GL_primitive_point gl point P =
     Some (if transparent gl ! unat (shifting gl ! unat P) = 0
           then gl\<lparr>vram := (vram gl)[nat (y point) * GL_Context_t.width gl + nat (x point)
                                   := colors (palette gl) ! unat (shifting gl ! unat P)]\<rparr>
           else gl)"
proof -
  define W H px py where "W = GL_Context_t.width gl" and "H = GL_Context_t.height gl"
    and "px = nat (x point)" and "py = nat (y point)"
  have tabs: "length (shifting gl) = GL_MAX_PALETTE_COLORS"
      "length (transparent gl) = GL_MAX_PALETTE_COLORS"
      "length (colors (palette gl)) = GL_MAX_PALETTE_COLORS"
    using wf by (simp_all add: GL_context_wf_def)
  have rows: "vram_rows gl = map (\<lambda>i. int (W * i)) [0..<H]" and len: "length (vram gl) = W * H"
    using wf by (simp_all add: GL_context_wf_def W_def H_def)
  have xs: "x point = int px" "y point = int py" and lt: "px < W" "py < H"
    using pos by (simp_all add: px_def py_def W_def H_def)
  have row: "load (vram_rows gl) (int py) = Some (int (W * py))"
    unfolding rows using lt by (intro row_table)
  have "W * py + px < W * py + W" using lt by simp
  also have "\<dots> = W * Suc py" by simp
  also have "\<dots> \<le> W * H" using lt by (intro mult_le_mono2) simp
  finally have cell: "W * py + px < length (vram gl)" by (simp add: len)
  have st: "store (vram gl) (int W * int py + int px) v = Some ((vram gl)[py * W + px := v])" for v
    using store_nat[OF cell, of v] by (simp add: mult.commute)
  show ?thesis
    by (simp add: GL_primitive_point_def GL_is_visible_def load_pixel load_pixel_uint tabs xs row st
        flip: W_def)
qed

lemma hline_loop_spec:
  assumes "d0 + n \<le> length vm"
  shows "\<exists>vm'. hline_loop n (int d0) rgba vm = Some vm' \<and> length vm' = length vm
     \<and> (\<forall>k<length vm. vm' ! k = (if d0 \<le> k \<and> k < d0 + n then rgba else vm ! k))"
  using assms
proof (induction n arbitrary: d0 vm)
  case 0
  show ?case by auto
next
  case (Suc n)
  have st: "store vm (int d0) rgba = Some (vm[d0 := rgba])"
    using Suc.prems by (simp add: store_nat)
  have next_dst: "int d0 + 1 = int (Suc d0)" by simp
  from Suc.IH[of "Suc d0" "vm[d0 := rgba]"] Suc.prems
  obtain vm' where r: "hline_loop n (int (Suc d0)) rgba (vm[d0 := rgba]) = Some vm'"
    and l: "length vm' = length vm"
    and c: "\<forall>k<length vm. vm' ! k = (if Suc d0 \<le> k \<and> k < Suc d0 + n then rgba else vm[d0 := rgba] ! k)"
    by auto
  have run: "hline_loop (Suc n) (int d0) rgba vm = Some vm'"
    by (simp add: st next_dst r del: of_nat_Suc)
  have "vm' ! k = (if d0 \<le> k \<and> k < d0 + Suc n then rgba else vm ! k)" if "k < length vm" for k
    using c that by (cases "k = d0") auto
  then show ?case using run l by blast
qed

subsection \<open>The concrete context\<close>

lemma example_context_wf: "GL_context_wf example_context"
  by (simp add: GL_context_wf_def example_context_def GL_context_initialize_def example_palette_def
      GL_MAX_PALETTE_COLORS_def)

lemma example_surface_wf: "GL_surface_wf example_surface"
  by (simp add: GL_surface_wf_def example_surface_def upt_rec)

text \<open>
  C1. For the point primitive and for both blits, on a well-formed context and with all
  coordinates inside the buffers: a pixel of raw value \<open>P\<close> is first sent through the
  shifting table \<open>S\<close>; if the transparency table \<open>T\<close> marks \<open>S[P]\<close> the
  destination cell keeps its colour, and otherwise the cell receives the palette colour
  \<open>C[S[P]]\<close>.
\<close>

theorem color_resolution_order:
  assumes "GL_context_wf gl" and "GL_surface_wf surface"
    and "0 \<le> x point" "x point < int (GL_Context_t.width gl)"
      "0 \<le> y point" "y point < int (GL_Context_t.height gl)"
    and "0 \<le> x tile" "0 \<le> y tile" "0 < GL_Rectangle_t.height tile"
      "nat (x tile) + GL_Rectangle_t.width tile \<le> GL_Surface_t.width surface"
      "nat (y tile) + GL_Rectangle_t.height tile \<le> GL_Surface_t.height surface"
    and "0 \<le> x position" "0 \<le> y position"
      "nat (x position) + GL_Rectangle_t.width tile \<le> GL_Context_t.width gl"
      "nat (y position) + GL_Rectangle_t.height tile \<le> GL_Context_t.height gl"
  shows "GL_primitive_point gl point P =
       Some (if transparent gl ! unat (shifting gl ! unat P) = 0
             then gl\<lparr>vram := (vram gl)[nat (y point) * GL_Context_t.width gl + nat (x point)
                                     := colors (palette gl) ! unat (shifting gl ! unat P)]\<rparr>
             else gl)
     \<and> (\<exists>vm'. GL_context_blit gl surface tile position sc rot = Some (gl\<lparr>vram := vm'\<rparr>)
          \<and> GL_context_blit_fast gl surface tile position = Some (gl\<lparr>vram := vm'\<rparr>)
          \<and> (\<forall>i<GL_Rectangle_t.height tile. \<forall>j<GL_Rectangle_t.width tile.
                vm' ! ((nat (y position) + i) * GL_Context_t.width gl + nat (x position) + j) =
                  (if transparent gl ! unat (shifting gl ! unat
                         (data surface ! ((nat (y tile) + i) * GL_Surface_t.width surface + nat (x tile) + j))) = 0
                   then colors (palette gl) ! unat (shifting gl ! unat
                         (data surface ! ((nat (y tile) + i) * GL_Surface_t.width surface + nat (x tile) + j)))
                   else vram gl ! ((nat (y position) + i) * GL_Context_t.width gl + nat (x position) + j))))"
proof -
  from GL_context_blit_spec[OF assms(1,2,7-15), of sc rot]
  obtain vm' where blit: "GL_context_blit gl surface tile position sc rot = Some (gl\<lparr>vram := vm'\<rparr>)"
    and cells: "\<forall>i<GL_Rectangle_t.height tile. \<forall>j<GL_Rectangle_t.width tile.
                vm' ! ((nat (y position) + i) * GL_Context_t.width gl + nat (x position) + j) =
                  (if transparent gl ! unat (shifting gl ! unat
                         (data surface ! ((nat (y tile) + i) * GL_Surface_t.width surface + nat (x tile) + j))) = 0
                   then colors (palette gl) ! unat (shifting gl ! unat
                         (data surface ! ((nat (y tile) + i) * GL_Surface_t.width surface + nat (x tile) + j)))
                   else vram gl ! ((nat (y position) + i) * GL_Context_t.width gl + nat (x position) + j))"
    by blast
  note fast = GL_context_blit_fast_spec[OF blit]
  note point = GL_primitive_point_spec[OF assms(1,3-6), of P]
  show ?thesis
    by (rule conjI, rule point, rule exI[of _ vm'], intro conjI) (rule blit fast cells)+
qed

theorem color_resolution_order_witness:
  "GL_primitive_point example_context \<lparr> x = 1, y = 2 \<rparr> 7
      = Some (example_context\<lparr>vram := (vram example_context)[9 := \<lparr> r = 7, g = 7, b = 7, a = 255 \<rparr>]\<rparr>)
   \<and> (\<exists>vm'. GL_context_blit example_context example_surface
                \<lparr> x = 0, y = 0, GL_Rectangle_t.width = 2, GL_Rectangle_t.height = 2 \<rparr> \<lparr> x = 1, y = 1 \<rparr> 1 0
                = Some (example_context\<lparr>vram := vm'\<rparr>)
           \<and> GL_context_blit_fast example_context example_surface
                \<lparr> x = 0, y = 0, GL_Rectangle_t.width = 2, GL_Rectangle_t.height = 2 \<rparr> \<lparr> x = 1, y = 1 \<rparr>
                = Some (example_context\<lparr>vram := vm'\<rparr>)
           \<and> vm' ! 5 = \<lparr> r = 0, g = 0, b = 0, a = 0 \<rparr>
           \<and> vm' ! 6 = \<lparr> r = 7, g = 7, b = 7, a = 255 \<rparr>
           \<and> vm' ! 9 = \<lparr> r = 9, g = 9, b = 9, a = 255 \<rparr>
           \<and> vm' ! 10 = \<lparr> r = 0, g = 0, b = 0, a = 0 \<rparr>)"
proof -
  let ?tile = "\<lparr> x = 0, y = 0, GL_Rectangle_t.width = 2, GL_Rectangle_t.height = 2 \<rparr>"
  have dims: "GL_Context_t.width example_context = 4" "GL_Context_t.height example_context = 3"
      "GL_Surface_t.width example_surface = 2" "GL_Surface_t.height example_surface = 2"
    by (simp_all add: example_context_def GL_context_initialize_def example_surface_def)
  have tabs: "shifting example_context ! 7 = 7" "shifting example_context ! 9 = 9"
      "shifting example_context ! 0 = 0"
      "transparent example_context ! 7 = 0" "transparent example_context ! 9 = 0"
      "transparent example_context ! 0 = 1"
      "colors (palette example_context) ! 7 = \<lparr> r = 7, g = 7, b = 7, a = 255 \<rparr>"
      "colors (palette example_context) ! 9 = \<lparr> r = 9, g = 9, b = 9, a = 255 \<rparr>"
    by (simp_all add: example_context_def GL_context_initialize_def example_palette_def
        GL_MAX_PALETTE_COLORS_def)
  have vm: "vram example_context = replicate 12 \<lparr> r = 0, g = 0, b = 0, a = 0 \<rparr>"
    by (simp add: example_context_def GL_context_initialize_def)
  have sd: "data example_surface = [0, 7, 9, 0]"
    by (simp add: example_surface_def)
  from color_resolution_order[OF example_context_wf example_surface_wf,
      of "\<lparr> x = 1, y = 2 \<rparr>" ?tile "\<lparr> x = 1, y = 1 \<rparr>" 7 1 0]
  obtain vm' where point: "GL_primitive_point example_context \<lparr> x = 1, y = 2 \<rparr> 7
      = Some (example_context\<lparr>vram := (vram example_context)[9 := \<lparr> r = 7, g = 7, b = 7, a = 255 \<rparr>]\<rparr>)"
    and blit: "GL_context_blit example_context example_surface ?tile \<lparr> x = 1, y = 1 \<rparr> 1 0
                = Some (example_context\<lparr>vram := vm'\<rparr>)"
    and fast: "GL_context_blit_fast example_context example_surface ?tile \<lparr> x = 1, y = 1 \<rparr>
                = Some (example_context\<lparr>vram := vm'\<rparr>)"
    and cells: "\<forall>i<2. \<forall>j<2. vm' ! ((1 + i) * 4 + 1 + j) =
         (if transparent example_context ! unat (shifting example_context ! unat
                         (data example_surface ! (i * 2 + j))) = 0
                   then colors (palette example_context) ! unat (shifting example_context ! unat
                         (data example_surface ! (i * 2 + j)))
                   else vram example_context ! ((1 + i) * 4 + 1 + j))"
    by (auto simp: dims tabs)
  have "vm' ! 5 = \<lparr> r = 0, g = 0, b = 0, a = 0 \<rparr>"
    using cells[rule_format, of 0 0] by (simp add: sd tabs vm)
  moreover have "vm' ! 6 = \<lparr> r = 7, g = 7, b = 7, a = 255 \<rparr>"
    using cells[rule_format, of 0 1] by (simp add: sd tabs vm)
  moreover have "vm' ! 9 = \<lparr> r = 9, g = 9, b = 9, a = 255 \<rparr>"
    using cells[rule_format, of 1 0] by (simp add: sd tabs vm)
  moreover have "vm' ! 10 = \<lparr> r = 0, g = 0, b = 0, a = 0 \<rparr>"
    using cells[rule_format, of 1 1] by (simp add: sd tabs vm)
  ultimately show ?thesis using point blit fast by blast
qed

subsection \<open>Horizontal and vertical runs\<close>

lemma GL_primitive_hline_spec:
  assumes wf: "GL_context_wf gl"
    and pos: "0 \<le> x origin" "0 \<le> y origin" "y origin < int (GL_Context_t.height gl)"
      "nat (x origin) + w \<le> GL_Context_t.width gl"
    and opaque: "transparent gl ! unat (shifting gl ! unat color) = 0"
  shows "\<exists>vm'. GL_primitive_hline gl origin w color = Some (gl\<lparr>vram := vm'\<rparr>)
     \<and> length vm' = length (vram gl)
     \<and> (\<forall>k<length (vram gl). vm' ! k =
          (if nat (y origin) * GL_Context_t.width gl + nat (x origin) \<le> k
              \<and> k < nat (y origin) * GL_Context_t.width gl + nat (x origin) + w
           then colors (palette gl) ! unat (shifting gl ! unat color) else vram gl ! k))"
proof -
  define W H px py where "W = GL_Context_t.width gl" and "H = GL_Context_t.height gl"
    and "px = nat (x origin)" and "py = nat (y origin)"
  note names = W_def H_def px_def py_def
  have tabs: "length (shifting gl) = GL_MAX_PALETTE_COLORS"
      "length (transparent gl) = GL_MAX_PALETTE_COLORS"
      "length (colors (palette gl)) = GL_MAX_PALETTE_COLORS"
    using wf by (simp_all add: GL_context_wf_def)
  have rows: "vram_rows gl = map (\<lambda>i. int (W * i)) [0..<H]" and len: "length (vram gl) = W * H"
    using wf by (simp_all add: GL_context_wf_def names)
  have xs: "x origin = int px" "y origin = int py" and lt: "px + w \<le> W" "py < H"
    using pos by (simp_all add: names)
  have row: "load (vram_rows gl) (int py) = Some (int (W * py))"
    unfolding rows using lt by (intro row_table)
  have "W * py + px + w \<le> W * py + W" using lt by simp
  also have "\<dots> = W * Suc py" by simp
  also have "\<dots> \<le> W * H" using lt by (intro mult_le_mono2) simp
  finally have fits: "(py * W + px) + w \<le> length (vram gl)" by (simp add: len mult.commute)
  from hline_loop_spec[OF fits, of "colors (palette gl) ! unat (shifting gl ! unat color)"]
  obtain vm' where run: "hline_loop w (int (py * W + px)) (colors (palette gl) ! unat (shifting gl ! unat color)) (vram gl) = Some vm'"
    and l: "length vm' = length (vram gl)"
    and c: "\<forall>k<length (vram gl). vm' ! k = (if py * W + px \<le> k \<and> k < py * W + px + w
          then colors (palette gl) ! unat (shifting gl ! unat color) else vram gl ! k)"
    by blast
  have start: "int (W * py) + int px = int (py * W + px)" by (simp add: mult.commute)
  have hline: "GL_primitive_hline gl origin w color = Some (gl\<lparr>vram := vm'\<rparr>)"
    using run opaque
    by (simp add: GL_primitive_hline_def GL_is_visible_def load_pixel load_pixel_uint tabs xs row start
        del: of_nat_add of_nat_mult)
  show ?thesis
    by (rule exI[of _ vm'], intro conjI) (rule hline l c[unfolded names])+
qed

lemma vline_loop_single_cell:
  assumes "load (vram_rows gl) (y origin) = Some row" "0 \<le> row + x origin" "row + x origin < int (length vm)"
  shows "vline_loop gl origin n rgba vm = Some (if n = 0 then vm else vm[nat (row + x origin) := rgba])"
  using assms(3)
proof (induction n arbitrary: vm)
  case 0
  show ?case by simp
next
  case (Suc n)
  have st: "store vm (row + x origin) rgba = Some (vm[nat (row + x origin) := rgba])"
    using assms(2) Suc.prems by (simp add: store_def)
  have "vline_loop gl origin n rgba (vm[nat (row + x origin) := rgba]) = Some (vm[nat (row + x origin) := rgba])"
    using Suc.IH[of "vm[nat (row + x origin) := rgba]"] Suc.prems by simp
  then show ?case by (simp add: assms(1) st)
qed

text \<open>
  C9. \<open>GL_primitive_hline\<close> writes the resolved colour to the \<open>width\<close> cells of
  row \<open>origin.y\<close> from column \<open>origin.x\<close> on and leaves the rest alone
  (\<open>GL_primitive_hline_spec\<close>, for a run that ends inside the row). A vertical run of
  height \<open>h\<close> should colour one cell in each of \<open>h\<close> rows; the loop of
  \<open>GL_primitive_vline\<close> starts from the origin again in every round, so it colours
  the origin alone (\<open>vline_loop_single_cell\<close>). On the 4 by 3 context, a run of height 2
  from (1, 0) in colour 7 sets cell 1 and leaves cell 5, the cell below, as it was.
\<close>

theorem GL_primitive_vline_single_cell:
  "GL_primitive_vline example_context \<lparr> x = 1, y = 0 \<rparr> 2 7
     = Some (example_context\<lparr>vram := (vram example_context)[1 := \<lparr> r = 7, g = 7, b = 7, a = 255 \<rparr>]\<rparr>)
   \<and> (vram example_context)[1 := \<lparr> r = 7, g = 7, b = 7, a = 255 \<rparr>] ! 5 = \<lparr> r = 0, g = 0, b = 0, a = 0 \<rparr>
   \<and> vram example_context ! 5 = \<lparr> r = 0, g = 0, b = 0, a = 0 \<rparr>"
proof -
  have tabs: "load (shifting example_context) 7 = Some 7" "load (transparent example_context) 7 = Some 0"
      "load (colors (palette example_context)) 7 = Some \<lparr> r = 7, g = 7, b = 7, a = 255 \<rparr>"
    by (simp_all add: load_def example_context_def GL_context_initialize_def example_palette_def
        GL_MAX_PALETTE_COLORS_def)
  have row: "load (vram_rows example_context) (y \<lparr> x = 1, y = 0 \<rparr>) = Some 0"
    by (simp add: load_def example_context_def GL_context_initialize_def upt_rec)
  have vm: "vram example_context = replicate 12 \<lparr> r = 0, g = 0, b = 0, a = 0 \<rparr>"
    by (simp add: example_context_def GL_context_initialize_def)
  have loop: "vline_loop example_context \<lparr> x = 1, y = 0 \<rparr> 2 \<lparr> r = 7, g = 7, b = 7, a = 255 \<rparr> (vram example_context)
      = Some ((vram example_context)[1 := \<lparr> r = 7, g = 7, b = 7, a = 255 \<rparr>])"
    using vline_loop_single_cell[OF row, of "vram example_context" 2 "\<lparr> r = 7, g = 7, b = 7, a = 255 \<rparr>"]
    by (simp add: vm)
  show ?thesis
    by (simp add: GL_primitive_vline_def GL_is_visible_def tabs loop) (simp add: vm)
qed

subsection \<open>Equality of the blits\<close>

text \<open>
  C10. For every context, surface, tile and position, and whatever the scale and rotation,
  \<open>GL_context_blit\<close> gives the result of \<open>GL_context_blit_fast\<close>: the same
  framebuffer, or the same fault when an access leaves a buffer. Scale and rotation are
  not read by the general path.
\<close>

theorem GL_context_blit_eq_blit_fast:
  "GL_context_blit context surface tile position sc rot
     = GL_context_blit_fast context surface tile position"
  by (simp add: GL_context_blit_def GL_context_blit_fast_def blit_fast_rows_eq)

section \<open>Properties of the engine loop\<close>

subsection \<open>The steps of a round\<close>

lemma update_step_fields:
  "lag (update_step script d e) = lag e"
  "time (update_step script d e) = time e"
  "renders (calls (update_step script d e)) = renders (calls e)"
  by (auto simp: update_step_def renders_def split: prod.splits)

lemma update_step_lazy:
  "updates (calls (update_step script d e))
       + lazy_calls script d n (running (update_step script d e)) (interpreter (update_step script d e))
     = updates (calls e) + lazy_calls script d (Suc n) (running e) (interpreter e)"
  "lazy_running script d n (running (update_step script d e)) (interpreter (update_step script d e))
     = lazy_running script d (Suc n) (running e) (interpreter e)"
proof -
  have stopped: "lazy_calls script d n False i = 0" "lazy_running script d n False i = False" for i
    by (cases n; simp)+
  show "updates (calls (update_step script d e))
       + lazy_calls script d n (running (update_step script d e)) (interpreter (update_step script d e))
     = updates (calls e) + lazy_calls script d (Suc n) (running e) (interpreter e)"
    by (auto simp: update_step_def updates_def stopped split: prod.splits)
  show "lazy_running script d n (running (update_step script d e)) (interpreter (update_step script d e))
     = lazy_running script d (Suc n) (running e) (interpreter e)"
    by (auto simp: update_step_def stopped split: prod.splits)
qed

lemma process_step_fields:
  "lag (process_step script e) = lag e"
  "time (process_step script e) = time e"
  "updates (calls (process_step script e)) = updates (calls e)"
  "renders (calls (process_step script e)) = renders (calls e)"
  by (auto simp: process_step_def updates_def renders_def split: prod.splits)

lemma render_step_fields:
  "lag (render_step script f e) = lag e"
  "time (render_step script f e) = time e"
  "updates (calls (render_step script f e)) = updates (calls e)"
  "renders (calls (render_step script f e)) = renders (calls e) @ (if running e then [Call_Interpreter_render f] else [])"
  by (auto simp: render_step_def updates_def renders_def split: prod.splits)

lemma fixed_updates_spec:
  fixes ops :: "'f Float_ops" and script :: "('f, 'i) Interpreter_t" and e :: "('f, 'i) Engine_t"
  shows "\<exists>n\<le>k.
      lag (fixed_updates ops script d k e) = ((\<lambda>l. float_sub ops l d) ^^ n) (lag e)
    \<and> time (fixed_updates ops script d k e) = ((\<lambda>t. float_add ops t d) ^^ n) (time e)
    \<and> (\<forall>j<n. float_ge ops (((\<lambda>l. float_sub ops l d) ^^ j) (lag e)) d)
    \<and> (n < k \<longrightarrow> \<not> float_ge ops (lag (fixed_updates ops script d k e)) d)
    \<and> updates (calls (fixed_updates ops script d k e))
        = updates (calls e) + lazy_calls script d n (running e) (interpreter e)
    \<and> running (fixed_updates ops script d k e) = lazy_running script d n (running e) (interpreter e)
    \<and> renders (calls (fixed_updates ops script d k e)) = renders (calls e)"
proof (induction k arbitrary: e)
  case 0
  show ?case by simp
next
  case (Suc k)
  let ?sub = "\<lambda>l. float_sub ops l d" and ?add = "\<lambda>t. float_add ops t d"
  have swap: "float_sub ops ((?sub ^^ m) v) d = (?sub ^^ m) (float_sub ops v d)"
    "float_add ops ((?add ^^ m) v) d = (?add ^^ m) (float_add ops v d)" for m v
    using funpow_swap1[of ?sub m v] funpow_swap1[of ?add m v] by simp_all
  show ?case
  proof (cases "float_ge ops (lag e) d")
    case False
    then show ?thesis by (intro exI[of _ 0]) simp
  next
    case True
    define e3 where "e3 = (update_step script d (e\<lparr>time := ?add (time e)\<rparr>))\<lparr>lag := ?sub (lag e)\<rparr>"
    have unfold: "fixed_updates ops script d (Suc k) e = fixed_updates ops script d k e3"
      using True by (simp add: e3_def Let_def update_step_fields)
    have e3: "lag e3 = ?sub (lag e)" "time e3 = ?add (time e)" "renders (calls e3) = renders (calls e)"
      by (simp_all add: e3_def update_step_fields)
    have lazy: "updates (calls e3) + lazy_calls script d m (running e3) (interpreter e3)
          = updates (calls e) + lazy_calls script d (Suc m) (running e) (interpreter e)"
       "lazy_running script d m (running e3) (interpreter e3)
          = lazy_running script d (Suc m) (running e) (interpreter e)" for m
      using update_step_lazy[where script = script and d = d and e = "e\<lparr>time := ?add (time e)\<rparr>" and n = m]
      by (simp_all add: e3_def)
    from Suc.IH[of e3, unfolded e3] obtain n where n: "n \<le> k"
      and l: "lag (fixed_updates ops script d k e3) = (?sub ^^ n) (?sub (lag e))"
      and t: "time (fixed_updates ops script d k e3) = (?add ^^ n) (?add (time e))"
      and before: "\<forall>j<n. float_ge ops ((?sub ^^ j) (?sub (lag e))) d"
      and after: "n < k \<longrightarrow> \<not> float_ge ops (lag (fixed_updates ops script d k e3)) d"
      and u: "updates (calls (fixed_updates ops script d k e3))
          = updates (calls e3) + lazy_calls script d n (running e3) (interpreter e3)"
      and go: "running (fixed_updates ops script d k e3) = lazy_running script d n (running e3) (interpreter e3)"
      and rn: "renders (calls (fixed_updates ops script d k e3)) = renders (calls e)"
      by blast
    have all: "float_ge ops ((?sub ^^ j) (lag e)) d" if "j < Suc n" for j
    proof (cases j)
      case 0
      then show ?thesis using True by simp
    next
      case (Suc j')
      then show ?thesis using before that by (simp add: swap)
    qed
    show ?thesis
      unfolding unfold
      apply (rule exI[of _ "Suc n"])
      using n l t after u go rn all lazy[of n]
      by (simp add: swap)
  qed
qed


lemma lazy_stopped: "lazy_calls script d n False i = 0" "lazy_running script d n False i = False"
  by (cases n; simp)+

lemma Engine_run_simulate_spec:
  fixes ops :: "'f Float_ops" and script :: "('f, 'i) Interpreter_t" and e :: "('f, 'i) Engine_t"
    and elapsed d :: 'f and k :: nat
  defines "L \<equiv> float_add ops (lag e) elapsed"
    and "e2 \<equiv> process_step script (e\<lparr>calls := calls e @ [Call_Input_process]\<rparr>)"
    and "e5 \<equiv> Engine_run_simulate ops script d k elapsed e"
  shows "\<exists>n\<le>k. lag e5 = ((\<lambda>l. float_sub ops l d) ^^ n) L
      \<and> time e5 = ((\<lambda>t. float_add ops t d) ^^ n) (time e)
      \<and> (\<forall>j<n. float_ge ops (((\<lambda>l. float_sub ops l d) ^^ j) L) d)
      \<and> (n < k \<longrightarrow> \<not> float_ge ops (lag e5) d)
      \<and> updates (calls e5) = updates (calls e) + lazy_calls script d n (running e2) (interpreter e2)
      \<and> running e5 = lazy_running script d n (running e2) (interpreter e2)
      \<and> renders (calls e5) = renders (calls e)"
proof -
  define e3 where "e3 = e2\<lparr>lag := L\<rparr>"
  have e3: "lag e3 = L" "time e3 = time e" "updates (calls e3) = updates (calls e)"
      "renders (calls e3) = renders (calls e)" "running e3 = running e2" "interpreter e3 = interpreter e2"
    by (simp_all add: e3_def e2_def process_step_fields) (simp_all add: updates_def renders_def)
  have e5: "e5 = (fixed_updates ops script d k e3)\<lparr>calls := calls (fixed_updates ops script d k e3)
        @ [Call_Audio_update elapsed, Call_Input_update elapsed, Call_Display_update elapsed]\<rparr>"
    by (simp add: e5_def Engine_run_simulate_def Let_def e3_def e2_def L_def process_step_fields)
  from fixed_updates_spec[of k ops script d e3, unfolded e3] obtain n where "n \<le> k"
    "lag (fixed_updates ops script d k e3) = ((\<lambda>l. float_sub ops l d) ^^ n) L"
    "time (fixed_updates ops script d k e3) = ((\<lambda>t. float_add ops t d) ^^ n) (time e)"
    "\<forall>j<n. float_ge ops (((\<lambda>l. float_sub ops l d) ^^ j) L) d"
    "n < k \<longrightarrow> \<not> float_ge ops (lag (fixed_updates ops script d k e3)) d"
    "updates (calls (fixed_updates ops script d k e3))
        = updates (calls e) + lazy_calls script d n (running e2) (interpreter e2)"
    "running (fixed_updates ops script d k e3) = lazy_running script d n (running e2) (interpreter e2)"
    "renders (calls (fixed_updates ops script d k e3)) = renders (calls e)"
    by blast
  then show ?thesis
    by (intro exI[of _ n]) (simp add: e5 updates_def renders_def)
qed

subsection \<open>The fixed steps\<close>

text \<open>
  C2. One round of the loop, with the lag \<open>L\<close> after the elapsed time was added, the
  fixed delta \<open>d\<close> and the skip budget \<open>k\<close>. The drain loop makes \<open>n\<close> steps,
  \<open>n \<le> k\<close>. Each step subtracts \<open>d\<close> from the lag with the subtraction of
  \<open>float\<close>, so the lag left is \<open>L\<close> with \<open>d\<close> subtracted \<open>n\<close> times; the
  lag was at least \<open>d\<close> before every step; and when the loop stops with budget left
  (\<open>n < k\<close>) the lag left is below \<open>d\<close>. So the loop stops only when the lag or
  the budget is used up, and what is left of the lag is kept, whatever it is. The fixed
  update is called lazily: once in each step while \<open>running\<close> holds and never after
  it went false (\<open>lazy_calls\<close>), so not at all when \<open>Interpreter_process\<close> asked
  to stop. All this holds whatever the operations of \<open>float\<close> compute.
\<close>

theorem fixed_step_accumulator:
  fixes ops :: "'f Float_ops" and script :: "('f, 'i) Interpreter_t" and e :: "('f, 'i) Engine_t"
    and elapsed d :: 'f and k :: nat
  defines "L \<equiv> float_add ops (lag e) elapsed"
    and "e2 \<equiv> process_step script (e\<lparr>calls := calls e @ [Call_Input_process]\<rparr>)"
    and "e' \<equiv> Engine_run_iteration ops script d k elapsed e"
  shows "\<exists>n\<le>k. lag e' = ((\<lambda>l. float_sub ops l d) ^^ n) L
      \<and> (\<forall>j<n. float_ge ops (((\<lambda>l. float_sub ops l d) ^^ j) L) d)
      \<and> (n < k \<longrightarrow> \<not> float_ge ops (lag e') d)
      \<and> updates (calls e') = updates (calls e) + lazy_calls script d n (running e2) (interpreter e2)
      \<and> (\<not> running e2 \<longrightarrow> updates (calls e') = updates (calls e))"
proof -
  define e5 where "e5 = Engine_run_simulate ops script d k elapsed e"
  have e': "e' = (render_step script (float_div ops (lag e5) d) e5)\<lparr>calls :=
      calls (render_step script (float_div ops (lag e5) d) e5) @ [Call_Display_present]\<rparr>"
    by (simp add: e'_def Engine_run_iteration_def Let_def e5_def)
  have same: "lag e' = lag e5" "updates (calls e') = updates (calls e5)"
    using render_step_fields(3)[of script "float_div ops (lag e5) d" e5]
    by (simp_all add: e' render_step_fields updates_def)
  from Engine_run_simulate_spec[where ops = ops and script = script and e = e
      and elapsed = elapsed and d = d and k = k, folded L_def e2_def e5_def]
  obtain n where "n \<le> k" "lag e5 = ((\<lambda>l. float_sub ops l d) ^^ n) L"
    "\<forall>j<n. float_ge ops (((\<lambda>l. float_sub ops l d) ^^ j) L) d"
    "n < k \<longrightarrow> \<not> float_ge ops (lag e5) d"
    "updates (calls e5) = updates (calls e) + lazy_calls script d n (running e2) (interpreter e2)"
    by blast
  then show ?thesis
    by (intro exI[of _ n]) (simp add: same lazy_stopped)
qed

subsection \<open>The call of render\<close>


subsection \<open>Rounds in binary32\<close>

lemma steady_lazy: "lazy_calls steady_script d n True i = n" "lazy_running steady_script d n True i = True"
  by (induction n; simp add: steady_script_def)+

lemmas engine_eval = Engine_run_iteration_def Engine_run_simulate_def process_step_def
  update_step_def render_step_def updates_def renders_def Let_def engine_start_def
  steady_script_def stopping_script_def

lemma fixed_updates_numeral:
  "fixed_updates ops script delta_time (numeral frames) engine =
     (if float_ge ops (lag engine) delta_time
      then (let e1 = engine\<lparr>time := float_add ops (time engine) delta_time\<rparr>;
                e2 = update_step script delta_time e1;
                e3 = e2\<lparr>lag := float_sub ops (lag e2) delta_time\<rparr>
            in fixed_updates ops script delta_time (pred_numeral frames) e3)
      else engine)"
  by (simp add: numeral_eq_Suc)

lemma binade_numeral:
  "binade (numeral n) v =
     (if 2 \<le> v then binade (pred_numeral n) (v / 2) + 1
      else if v < 1 then binade (pred_numeral n) (v * 2) - 1
      else 0)"
  by (simp add: numeral_eq_Suc)








text \<open>The roundings of the rounds evaluated below.\<close>

lemma binary32_round_steps:
  "binary32_round 0 = 0"
  "binary32_round (1 / 2) = 1 / 2"
  "binary32_round 1 = 1"
  "binary32_round (3 / 2) = 3 / 2"
  "binary32_round 2 = 2"
  "binary32_round 3 = 3"
  "binary32_round (1 / 3) = 11184811 / 33554432"
  "binary32_round (11184811 / 33554432) = 11184811 / 33554432"
  "binary32_round (11184811 / 16777216) = 11184811 / 16777216"
  "binary32_round (11184811 / 8388608) = 11184811 / 8388608"
  "binary32_round (33554433 / 33554432) = 1"
  "binary32_round (22369621 / 33554432) = 5592405 / 8388608"
  "binary32_round (11184809 / 33554432) = 11184809 / 33554432"
  "binary32_round (11184809 / 11184811) = 16777213 / 16777216"
  by (simp_all add: binary32_round_def round_half_even_def Let_def binade_numeral)

text \<open>
  A round at 3 frames per second: \<open>delta_time\<close> is \<open>1.0f / 3\<close>, that is
  11184811 / 33554432, and the time elapsed is four times that. The lag goes through
  \<open>4 * delta_time\<close>, 1, 5592405 / 8388608 and 11184809 / 33554432, which is below
  \<open>delta_time\<close>: the loop stops after three steps.
\<close>

lemma third_second_lags:
  "((\<lambda>l. float_sub binary32 l (11184811 / 33554432)) ^^ 0) (11184811 / 8388608) = 11184811 / 8388608"
  "((\<lambda>l. float_sub binary32 l (11184811 / 33554432)) ^^ Suc 0) (11184811 / 8388608) = 1"
  "((\<lambda>l. float_sub binary32 l (11184811 / 33554432)) ^^ Suc (Suc 0)) (11184811 / 8388608)
      = 5592405 / 8388608"
  "((\<lambda>l. float_sub binary32 l (11184811 / 33554432)) ^^ Suc (Suc (Suc 0))) (11184811 / 8388608)
      = 11184809 / 33554432"
  by (simp_all add: binary32_def binary32_round_steps)

lemma third_second_steps:
  assumes before: "\<forall>j<n. float_ge binary32
        (((\<lambda>l. float_sub binary32 l (11184811 / 33554432)) ^^ j) (11184811 / 8388608))
        (11184811 / 33554432)"
    and after: "n < 50 \<longrightarrow> \<not> float_ge binary32
        (((\<lambda>l. float_sub binary32 l (11184811 / 33554432)) ^^ n) (11184811 / 8388608))
        (11184811 / 33554432)"
  shows "n = Suc (Suc (Suc 0))"
proof -
  have ge: "float_ge binary32 u v = (v \<le> u)" for u v
    by (simp add: binary32_def)
  have "n \<le> Suc (Suc (Suc 0))"
  proof (rule ccontr)
    assume "\<not> n \<le> Suc (Suc (Suc 0))"
    then have "Suc (Suc (Suc 0)) < n" by simp
    with before have "float_ge binary32
        (((\<lambda>l. float_sub binary32 l (11184811 / 33554432)) ^^ Suc (Suc (Suc 0))) (11184811 / 8388608))
        (11184811 / 33554432)"
      by blast
    then show False by (simp add: third_second_lags ge del: funpow.simps)
  qed
  moreover have "Suc (Suc (Suc 0)) \<le> n"
  proof (rule ccontr)
    assume "\<not> Suc (Suc (Suc 0)) \<le> n"
    then have small: "n = 0 \<or> n = Suc 0 \<or> n = Suc (Suc 0)" by arith
    then have "n < 50" by auto
    with after have stop: "\<not> float_ge binary32
        (((\<lambda>l. float_sub binary32 l (11184811 / 33554432)) ^^ n) (11184811 / 8388608))
        (11184811 / 33554432)"
      by blast
    from small show False
    proof (elim disjE)
      assume "n = 0"
      with stop show False by (simp add: third_second_lags ge del: funpow.simps)
    next
      assume "n = Suc 0"
      with stop show False by (simp add: third_second_lags ge del: funpow.simps)
    next
      assume "n = Suc (Suc 0)"
      with stop show False by (simp add: third_second_lags ge del: funpow.simps)
    qed
  qed
  ultimately show ?thesis by simp
qed

lemma third_second_start:
  "float_add binary32 (lag engine_start) (11184811 / 8388608) = 11184811 / 8388608"
  "updates (calls engine_start) = 0"
  "renders (calls engine_start) = []"
  "running (process_step steady_script
      (engine_start\<lparr>calls := calls engine_start @ [Call_Input_process]\<rparr>)) = True"
  by (simp_all add: engine_start_def binary32_def binary32_round_steps updates_def renders_def
      process_step_def steady_script_def)

text \<open>The theorem of the fixed steps at work on this round: three updates, and the lag
  left is 11184809 / 33554432.\<close>

theorem fixed_step_accumulator_witness:
  "lag (Engine_run_iteration binary32 steady_script (11184811 / 33554432) 50
        (11184811 / 8388608) engine_start) = 11184809 / 33554432
   \<and> updates (calls (Engine_run_iteration binary32 steady_script (11184811 / 33554432) 50
        (11184811 / 8388608) engine_start)) = 3"
proof -
  let ?e' = "Engine_run_iteration binary32 steady_script (11184811 / 33554432) 50
        (11184811 / 8388608) engine_start"
  from fixed_step_accumulator[where ops = binary32 and script = steady_script
      and e = engine_start and elapsed = "11184811 / 8388608" and d = "11184811 / 33554432"
      and k = 50, unfolded third_second_start steady_lazy]
  obtain n where l: "lag ?e'
        = ((\<lambda>l. float_sub binary32 l (11184811 / 33554432)) ^^ n) (11184811 / 8388608)"
    and before: "\<forall>j<n. float_ge binary32
        (((\<lambda>l. float_sub binary32 l (11184811 / 33554432)) ^^ j) (11184811 / 8388608))
        (11184811 / 33554432)"
    and after: "n < 50 \<longrightarrow> \<not> float_ge binary32 (lag ?e') (11184811 / 33554432)"
    and u: "updates (calls ?e') = 0 + n"
    by blast
  from before after[unfolded l] have n: "n = Suc (Suc (Suc 0))"
    by (rule third_second_steps)
  show ?thesis
    using l u unfolding n third_second_lags by simp
qed

text \<open>
  The count \<open>min(k, floor(L / d))\<close> is not the number of fixed updates. When
  \<open>Interpreter_process\<close> asks to stop, no update is called, where the count is 2
  (\<open>L = 1\<close>, \<open>d = 1/2\<close>, \<open>k = 5\<close>). And in binary32, at 3 frames per second and
  with four times \<open>delta_time\<close> elapsed, the count is 4 and \<open>L - 4 * d\<close> is 0, but
  the loop makes three steps and leaves a lag of 11184809 / 33554432.
\<close>

theorem fixed_updates_differ_from_quotient:
  "updates (calls (Engine_run_iteration binary32 stopping_script (1/2) 5 1 engine_start)) = 0
   \<and> min 5 (nat \<lfloor>(lag engine_start + 1) / (1/2 :: real)\<rfloor>) = 2
   \<and> float_div binary32 1 3 = 11184811 / 33554432
   \<and> float_add binary32 (lag engine_start) (11184811 / 8388608) = 11184811 / 8388608
   \<and> updates (calls (Engine_run_iteration binary32 steady_script (11184811 / 33554432) 50
        (11184811 / 8388608) engine_start)) = 3
   \<and> lag (Engine_run_iteration binary32 steady_script (11184811 / 33554432) 50
        (11184811 / 8388608) engine_start) = 11184809 / 33554432
   \<and> min 50 (nat \<lfloor>(11184811 / 8388608) / (11184811 / 33554432 :: real)\<rfloor>) = 4
   \<and> 11184811 / 8388608 - 4 * (11184811 / 33554432) = (0::real)"
proof (intro conjI)
  show "updates (calls (Engine_run_iteration binary32 stopping_script (1/2) 5 1 engine_start)) = 0"
    by (simp add: engine_eval binary32_def binary32_round_steps fixed_updates_numeral)
  show "min 5 (nat \<lfloor>(lag engine_start + 1) / (1/2 :: real)\<rfloor>) = 2"
    by (simp add: engine_start_def)
  show "float_div binary32 1 3 = 11184811 / 33554432"
    by (simp add: binary32_def binary32_round_steps)
  show "float_add binary32 (lag engine_start) (11184811 / 8388608) = 11184811 / 8388608"
    by (simp add: engine_start_def binary32_def binary32_round_steps)
  show "updates (calls (Engine_run_iteration binary32 steady_script (11184811 / 33554432) 50
        (11184811 / 8388608) engine_start)) = 3"
    by (simp add: engine_eval binary32_def binary32_round_steps fixed_updates_numeral)
  show "lag (Engine_run_iteration binary32 steady_script (11184811 / 33554432) 50
        (11184811 / 8388608) engine_start) = 11184809 / 33554432"
    by (simp add: engine_eval binary32_def binary32_round_steps fixed_updates_numeral)
  show "min 50 (nat \<lfloor>(11184811 / 8388608) / (11184811 / 33554432 :: real)\<rfloor>) = 4"
    by simp
  show "11184811 / 8388608 - 4 * (11184811 / 33554432) = (0::real)"
    by simp
qed



section \<open>Properties of the FPS estimator\<close>




subsection \<open>The estimator in binary32\<close>













section \<open>Properties of the display\<close>

subsection \<open>The window geometry\<close>

lemma fit_iff:
  fixes w s W :: int
  assumes "0 < w"
  shows "(w * s \<le> W) = (s \<le> W div w)"
proof
  assume "w * s \<le> W"
  then have "(w * s) div w \<le> W div w" using assms by (intro zdiv_mono1)
  then show "s \<le> W div w" using assms by simp
next
  assume "s \<le> W div w"
  then have "w * s \<le> w * (W div w)" using assms by (intro mult_left_mono) simp_all
  also have "\<dots> = W - W mod w" by (simp add: minus_mod_eq_mult_div)
  also have "\<dots> \<le> W" using assms by simp
  finally show "w * s \<le> W" .
qed

lemma sdiv_pos: "0 < (w::int) \<Longrightarrow> 0 \<le> W \<Longrightarrow> W sdiv w = W div w"
  by (simp add: signed_divide_int_def sgn_if)

lemma max_scale_fits:
  fixes w h W H :: int
  assumes "0 < w" "0 < h" "0 \<le> W" "0 \<le> H"
  shows "(w * s \<le> W \<and> h * s \<le> H) = (s \<le> imin (W sdiv w) (H sdiv h))"
  using assms by (auto simp: fit_iff sdiv_pos imin_def)

lemma max_scale_zero:
  fixes w h W H :: int
  assumes "0 < w" "0 < h" "0 \<le> W" "0 \<le> H"
  shows "(imin (W sdiv w) (H sdiv h) = 0) = (W < w \<or> H < h)"
proof -
  have "(1 \<le> imin (W sdiv w) (H sdiv h)) = (w \<le> W \<and> h \<le> H)"
    using max_scale_fits[OF assms, of 1] by simp
  moreover have "0 \<le> imin (W sdiv w) (H sdiv h)"
    using max_scale_fits[OF assms, of 0] assms by simp
  ultimately show ?thesis by linarith
qed

lemma window_open_closed: "\<not> window_open (evs @ [glfwDestroyWindow, glfwTerminate])"
  by (simp add: window_open_def)


lemma compute_size_fits:
  fixes display :: Display_t and config :: Display_Configuration_t and W H :: int
  defines "w \<equiv> Display_Configuration_t.width config" and "h \<equiv> Display_Configuration_t.height config"
  defines "m \<equiv> imin (W sdiv w) (H sdiv h)"
  assumes nz: "w \<noteq> 0" "h \<noteq> 0" "m \<noteq> 0"
  shows "\<exists>d p ev. compute_size (W, H) display config = Some (True, d, p, ev)
      \<and> window_scale d = (if scale config \<noteq> 0 \<and> scale config \<le> m then scale config else m)
      \<and> window_width d = w * window_scale d \<and> window_height d = h * window_scale d"
  using nz unfolding w_def h_def m_def
  by (auto simp: compute_size_def c_div_def Let_def)

lemma compute_size_too_big:
  fixes display :: Display_t and config :: Display_Configuration_t and W H :: int
  defines "w \<equiv> Display_Configuration_t.width config" and "h \<equiv> Display_Configuration_t.height config"
  assumes nz: "w \<noteq> 0" "h \<noteq> 0" "imin (W sdiv w) (H sdiv h) = 0"
  shows "compute_size (W, H) display config =
     Some (False, display\<lparr>window_width := w, window_height := h, window_scale := 1\<rparr>, None,
           [Log_write LOG_LEVELS_DEBUG ''<DISPLAY> display size is %dx%d'',
            Log_write LOG_LEVELS_FATAL ''<DISPLAY> requested display size can't fit display!''])"
  using nz unfolding w_def h_def
  by (simp add: compute_size_def c_div_def Let_def)

lemma Display_initialize_too_big:
  assumes "glfwInit_ok platform" "glfwCreateWindow_ok platform" "gladLoadGLLoader_ok platform"
    "GL_context_create_ok platform"
    and "compute_size (glfwGetMonitorWorkarea platform) (Display_zero\<lparr>configuration := config, window := True\<rparr>) config
      = Some (False, d, p, ev)"
  shows "\<exists>evs. Display_initialize platform config = Some (False, d, evs @ ev @ [glfwDestroyWindow, glfwTerminate])"
  using assms by (simp add: Display_initialize_def Let_def)


text \<open>
  C3. For a canvas of \<open>w\<close> by \<open>h\<close> pixels (both positive) on a display of
  \<open>W\<close> by \<open>H\<close>: when the canvas fits and the requested scale is 0 (automatic) or
  larger than every scale that fits, \<open>compute_size\<close> chooses the largest integer
  scale \<open>s\<close> with \<open>w * s \<le> W\<close> and \<open>h * s \<le> H\<close>, and the window,
  \<open>w * s\<close> by \<open>h * s\<close>, does not exceed the display. When even scale 1 does not
  fit, \<open>compute_size\<close> logs the fit failure and returns false, and
  \<open>Display_initialize\<close> (on a platform where the earlier steps succeed) returns
  false with that failure in the log and with its window destroyed.
\<close>

theorem window_geometry:
  fixes display :: Display_t and config :: Display_Configuration_t and W H :: int
    and platform :: Platform
  defines "w \<equiv> Display_Configuration_t.width config" and "h \<equiv> Display_Configuration_t.height config"
  assumes canvas: "0 < w" "0 < h" and monitor: "0 \<le> W" "0 \<le> H"
  shows "(w \<le> W \<and> h \<le> H
          \<and> (scale config = 0 \<or> (\<forall>s. w * s \<le> W \<and> h * s \<le> H \<longrightarrow> s < scale config)) \<longrightarrow>
          (\<exists>d p ev. compute_size (W, H) display config = Some (True, d, p, ev)
             \<and> window_width d = w * window_scale d \<and> window_height d = h * window_scale d
             \<and> window_width d \<le> W \<and> window_height d \<le> H
             \<and> (\<forall>s. w * s \<le> W \<and> h * s \<le> H \<longrightarrow> s \<le> window_scale d)))
     \<and> (W < w \<or> H < h \<longrightarrow>
          (\<exists>d ev. compute_size (W, H) display config = Some (False, d, None, ev)
             \<and> Log_write LOG_LEVELS_FATAL ''<DISPLAY> requested display size can't fit display!'' \<in> set ev)
          \<and> (glfwInit_ok platform \<and> glfwCreateWindow_ok platform \<and> gladLoadGLLoader_ok platform
               \<and> GL_context_create_ok platform \<and> glfwGetMonitorWorkarea platform = (W, H) \<longrightarrow>
               (\<exists>d ev. Display_initialize platform config = Some (False, d, ev)
                  \<and> Log_write LOG_LEVELS_FATAL ''<DISPLAY> requested display size can't fit display!'' \<in> set ev
                  \<and> \<not> window_open ev)))"
proof (intro conjI impI)
  define m where "m = imin (W sdiv w) (H sdiv h)"
  note fits = max_scale_fits[OF canvas monitor, folded m_def]
  assume ok: "w \<le> W \<and> h \<le> H
          \<and> (scale config = 0 \<or> (\<forall>s. w * s \<le> W \<and> h * s \<le> H \<longrightarrow> s < scale config))"
  then have "1 \<le> m" using fits[of 1] by simp
  then have nz: "w \<noteq> 0" "h \<noteq> 0" "m \<noteq> 0" using canvas by simp_all
  have over: "m < scale config" if "scale config \<noteq> 0"
    using ok that fits[of m] by auto
  from compute_size_fits[of config W H display, folded w_def h_def, folded m_def, OF nz]
  obtain d p ev where run: "compute_size (W, H) display config = Some (True, d, p, ev)"
    and sc: "window_scale d = (if scale config \<noteq> 0 \<and> scale config \<le> m then scale config else m)"
    and wh: "window_width d = w * window_scale d" "window_height d = h * window_scale d"
    by blast
  have sc': "window_scale d = m" using sc over by auto
  have "w * m \<le> W \<and> h * m \<le> H" using fits[of m] by simp
  then have inside: "window_width d \<le> W" "window_height d \<le> H" by (simp_all add: wh sc')
  have best: "\<forall>s. w * s \<le> W \<and> h * s \<le> H \<longrightarrow> s \<le> window_scale d"
    using fits by (simp add: sc')
  show "\<exists>d p ev. compute_size (W, H) display config = Some (True, d, p, ev)
             \<and> window_width d = w * window_scale d \<and> window_height d = h * window_scale d
             \<and> window_width d \<le> W \<and> window_height d \<le> H
             \<and> (\<forall>s. w * s \<le> W \<and> h * s \<le> H \<longrightarrow> s \<le> window_scale d)"
    using run wh inside best by blast
next
  assume big: "W < w \<or> H < h"
  then have zero: "imin (W sdiv w) (H sdiv h) = 0"
    by (simp add: max_scale_zero[OF canvas monitor])
  have nz: "w \<noteq> 0" "h \<noteq> 0" using canvas by simp_all
  note fail = compute_size_too_big[of config W H, folded w_def h_def, OF nz zero]
  show "\<exists>d ev. compute_size (W, H) display config = Some (False, d, None, ev)
             \<and> Log_write LOG_LEVELS_FATAL ''<DISPLAY> requested display size can't fit display!'' \<in> set ev"
    by (simp add: fail)
next
  assume big: "W < w \<or> H < h"
  assume up: "glfwInit_ok platform \<and> glfwCreateWindow_ok platform \<and> gladLoadGLLoader_ok platform
               \<and> GL_context_create_ok platform \<and> glfwGetMonitorWorkarea platform = (W, H)"
  have zero: "imin (W sdiv w) (H sdiv h) = 0"
    using big by (simp add: max_scale_zero[OF canvas monitor])
  have nz: "w \<noteq> 0" "h \<noteq> 0" using canvas by simp_all
  note fail = compute_size_too_big[of config W H "Display_zero\<lparr>configuration := config, window := True\<rparr>",
      folded w_def h_def, OF nz zero]
  from Display_initialize_too_big[of platform config] up fail
  obtain evs d where run: "Display_initialize platform config = Some (False, d,
      evs @ [Log_write LOG_LEVELS_DEBUG ''<DISPLAY> display size is %dx%d'',
            Log_write LOG_LEVELS_FATAL ''<DISPLAY> requested display size can't fit display!'']
          @ [glfwDestroyWindow, glfwTerminate])"
    by auto
  show "\<exists>d ev. Display_initialize platform config = Some (False, d, ev)
                  \<and> Log_write LOG_LEVELS_FATAL ''<DISPLAY> requested display size can't fit display!'' \<in> set ev
                  \<and> \<not> window_open ev"
    unfolding run using window_open_closed[of "evs @ [Log_write LOG_LEVELS_DEBUG ''<DISPLAY> display size is %dx%d'',
            Log_write LOG_LEVELS_FATAL ''<DISPLAY> requested display size can't fit display!'']"]
    by simp
qed


text \<open>The theorem at work: the canvas of 320 by 180 on a display of 1920 by 1080 gets
  scale 6 and a window of 1920 by 1080; on a display of 300 by 1080 the initialization
  fails and leaves no window.\<close>

theorem window_geometry_witness:
  "(\<exists>d p ev. compute_size (1920, 1080) Display_zero canvas_320x180 = Some (True, d, p, ev)
       \<and> window_scale d = 6 \<and> window_width d = 1920 \<and> window_height d = 1080)
   \<and> (\<exists>d ev. Display_initialize (good_platform\<lparr>glfwGetMonitorWorkarea := (300, 1080)\<rparr>) canvas_320x180
         = Some (False, d, ev) \<and> \<not> window_open ev)"
proof
  have cfg: "Display_Configuration_t.width canvas_320x180 = 320"
    "Display_Configuration_t.height canvas_320x180 = 180" "scale canvas_320x180 = 0"
    by (simp_all add: canvas_320x180_def)
  from window_geometry[of canvas_320x180 1920 1080 Display_zero good_platform]
  obtain d p ev where run: "compute_size (1920, 1080) Display_zero canvas_320x180 = Some (True, d, p, ev)"
    and size: "window_width d = 320 * window_scale d" "window_height d = 180 * window_scale d"
    and inside: "window_width d \<le> 1920"
    and best: "\<forall>s. 320 * s \<le> 1920 \<and> 180 * s \<le> 1080 \<longrightarrow> s \<le> window_scale d"
    by (auto simp: cfg)
  have "6 \<le> window_scale d" using best[rule_format, of 6] by simp
  moreover have "window_scale d \<le> 6" using inside size by simp
  ultimately have "window_scale d = 6" by simp
  then show "\<exists>d p ev. compute_size (1920, 1080) Display_zero canvas_320x180 = Some (True, d, p, ev)
       \<and> window_scale d = 6 \<and> window_width d = 1920 \<and> window_height d = 1080"
    using run size by simp
next
  have cfg: "Display_Configuration_t.width canvas_320x180 = 320"
    "Display_Configuration_t.height canvas_320x180 = 180"
    by (simp_all add: canvas_320x180_def)
  have up: "glfwInit_ok (good_platform\<lparr>glfwGetMonitorWorkarea := (300, 1080)\<rparr>)"
    "glfwCreateWindow_ok (good_platform\<lparr>glfwGetMonitorWorkarea := (300, 1080)\<rparr>)"
    "gladLoadGLLoader_ok (good_platform\<lparr>glfwGetMonitorWorkarea := (300, 1080)\<rparr>)"
    "GL_context_create_ok (good_platform\<lparr>glfwGetMonitorWorkarea := (300, 1080)\<rparr>)"
    by (simp_all add: good_platform_def)
  show "\<exists>d ev. Display_initialize (good_platform\<lparr>glfwGetMonitorWorkarea := (300, 1080)\<rparr>) canvas_320x180
         = Some (False, d, ev) \<and> \<not> window_open ev"
    using window_geometry[of canvas_320x180 300 1080 Display_zero
        "good_platform\<lparr>glfwGetMonitorWorkarea := (300, 1080)\<rparr>"] up
    by (auto simp: cfg)
qed

subsection \<open>Display_shader\<close>

lemma program_build_fails:
  assumes "\<not> (created_id driver \<noteq> 0 \<and> vertex_ok driver \<and> fragment_ok driver)"
  shows "\<exists>q ev. program_build driver program = (False, q, ev)
     \<and> program_id q = (if created_id driver = 0 then program_id program else created_id driver)
     \<and> program_calls ev = [glCreateProgram (created_id driver)]
     \<and> (\<forall>t. Log_write LOG_LEVELS_FATAL t \<notin> set ev)"
  using assms
  by (auto simp: program_build_def program_create_def program_attach_def program_calls_def Let_def)

text \<open>
  While the pass-through program is the active one, a request for a custom shader that
  fails to build (the program cannot be created, or a shader does not compile or link)
  leaves the pass-through program active: \<open>Display_shader\<close> creates one program,
  deletes it (or, when none could be created, what the custom slot held), selects the
  pass-through program again, logs a warning and nothing fatal. And a request for no
  effect while the pass-through program is active returns at once: the display is
  unchanged and the only call is one line of the log.
\<close>

lemma shader_fallback_from_passthru:
  fixes display :: Display_t and driver :: GL_Driver and source :: string
  defines "passthru \<equiv> program_id (programs display ! DISPLAY_PROGRAM_PASSTHRU)"
  assumes active: "active_program display = Some DISPLAY_PROGRAM_PASSTHRU"
    and slots: "length (programs display) = Display_Programs_t_CountOf"
    and fails: "\<not> (created_id driver \<noteq> 0 \<and> vertex_ok driver \<and> fragment_ok driver)"
  shows "(\<exists>ev. Display_shader driver display (Some source)
            = Some (display\<lparr>programs := (programs display)[DISPLAY_PROGRAM_CUSTOM := \<lparr> program_id = 0 \<rparr>]\<rparr>, ev)
          \<and> program_calls ev =
               [glCreateProgram (created_id driver),
                glDeleteProgram (if created_id driver = 0
                                 then program_id (programs display ! DISPLAY_PROGRAM_CUSTOM)
                                 else created_id driver),
                glUseProgram passthru]
          \<and> Log_write LOG_LEVELS_WARNING ''<DISPLAY> can't load custom shader'' \<in> set ev
          \<and> (\<forall>t. Log_write LOG_LEVELS_FATAL t \<notin> set ev))
     \<and> Display_shader driver display None
          = Some (display, [Log_write LOG_LEVELS_INFO ''<DISPLAY> pass-thru shader already active, bailing out''])"
proof
  from program_build_fails[OF fails, of "programs display ! DISPLAY_PROGRAM_CUSTOM"]
  obtain q ev where build: "program_build driver (programs display ! DISPLAY_PROGRAM_CUSTOM) = (False, q, ev)"
    and q: "program_id q = (if created_id driver = 0
                            then program_id (programs display ! DISPLAY_PROGRAM_CUSTOM)
                            else created_id driver)"
    and pc: "program_calls ev = [glCreateProgram (created_id driver)]"
    and quiet: "\<forall>t. Log_write LOG_LEVELS_FATAL t \<notin> set ev"
    by blast
  have keep: "(programs display)[DISPLAY_PROGRAM_CUSTOM := \<lparr> program_id = 0 \<rparr>] ! DISPLAY_PROGRAM_PASSTHRU
      = programs display ! DISPLAY_PROGRAM_PASSTHRU"
    by (simp add: DISPLAY_PROGRAM_CUSTOM_def DISPLAY_PROGRAM_PASSTHRU_def)
  have pc': "filter is_program_call ev = [glCreateProgram (created_id driver)]"
    using pc by (simp add: program_calls_def)
  show "\<exists>ev. Display_shader driver display (Some source)
            = Some (display\<lparr>programs := (programs display)[DISPLAY_PROGRAM_CUSTOM := \<lparr> program_id = 0 \<rparr>]\<rparr>, ev)
          \<and> program_calls ev =
               [glCreateProgram (created_id driver),
                glDeleteProgram (if created_id driver = 0
                                 then program_id (programs display ! DISPLAY_PROGRAM_CUSTOM)
                                 else created_id driver),
                glUseProgram passthru]
          \<and> Log_write LOG_LEVELS_WARNING ''<DISPLAY> can't load custom shader'' \<in> set ev
          \<and> (\<forall>t. Log_write LOG_LEVELS_FATAL t \<notin> set ev)"
    using quiet
    by (simp add: Display_shader_def active build program_delete_def keep Let_def program_calls_def pc' q
        flip: passthru_def)
next
  show "Display_shader driver display None
          = Some (display, [Log_write LOG_LEVELS_INFO ''<DISPLAY> pass-thru shader already active, bailing out''])"
    by (simp add: Display_shader_def active)
qed

lemma shader_fallback_from_passthru_example:
  "(\<exists>ev. Display_shader failing_driver display_with_passthru (Some ''vec4 effect() {'')
        = Some (display_with_passthru, ev)
      \<and> program_calls ev = [glCreateProgram 3, glDeleteProgram 3, glUseProgram 1])
   \<and> Display_shader failing_driver display_with_passthru None
        = Some (display_with_passthru,
                [Log_write LOG_LEVELS_INFO ''<DISPLAY> pass-thru shader already active, bailing out''])"
proof -
  have d: "active_program display_with_passthru = Some DISPLAY_PROGRAM_PASSTHRU"
    "length (programs display_with_passthru) = Display_Programs_t_CountOf"
    "programs display_with_passthru ! DISPLAY_PROGRAM_PASSTHRU = \<lparr> program_id = 1 \<rparr>"
    "programs display_with_passthru ! DISPLAY_PROGRAM_CUSTOM = \<lparr> program_id = 0 \<rparr>"
    "display_with_passthru\<lparr>programs := (programs display_with_passthru)[DISPLAY_PROGRAM_CUSTOM := \<lparr> program_id = 0 \<rparr>]\<rparr>
       = display_with_passthru"
    by (simp_all add: display_with_passthru_def Display_zero_def DISPLAY_PROGRAM_PASSTHRU_def
        DISPLAY_PROGRAM_CUSTOM_def Display_Programs_t_CountOf_def)
  have f: "created_id failing_driver = 3" "\<not> fragment_ok failing_driver"
    by (simp_all add: failing_driver_def)
  show ?thesis
    using shader_fallback_from_passthru[of display_with_passthru failing_driver "''vec4 effect() {''"]
    by (simp add: d f) blast
qed

text \<open>
  C4. The claim fails when a custom program is the active one. With the custom program
  number 2 active and a source whose fragment shader does not compile,
  \<open>Display_shader\<close> deletes program 2 before it builds the new one, creates program 3
  and deletes it, and then selects the active slot, which is still the custom one and
  holds no program: \<open>glUseProgram 0\<close>. The program that was active is neither kept
  nor usable, and the pass-through program (number 1) is not selected either. The branch
  for no effect, on the same display, does set the active slot to the pass-through
  program after the deletion and selects program 1; the branch of the failed build sets
  nothing.
\<close>

theorem shader_failure_after_custom_program:
  "active_program display_with_effect = Some DISPLAY_PROGRAM_CUSTOM
   \<and> programs display_with_effect = [\<lparr> program_id = 1 \<rparr>, \<lparr> program_id = 2 \<rparr>]
   \<and> shader_outcome (Display_shader failing_driver display_with_effect (Some ''vec4 effect() {''))
       = Some (Some DISPLAY_PROGRAM_CUSTOM, [\<lparr> program_id = 1 \<rparr>, \<lparr> program_id = 0 \<rparr>],
               [glDeleteProgram 2, glCreateProgram 3, glDeleteProgram 3, glUseProgram 0])
   \<and> shader_outcome (Display_shader failing_driver display_with_effect None)
       = Some (Some DISPLAY_PROGRAM_PASSTHRU, [\<lparr> program_id = 1 \<rparr>, \<lparr> program_id = 0 \<rparr>],
               [glDeleteProgram 2, glDeleteProgram 0, glUseProgram 1])"
  by (simp add: shader_outcome_def program_calls_def Display_shader_def display_with_effect_def
      failing_driver_def Display_zero_def
      program_build_def program_create_def program_attach_def program_delete_def
      DISPLAY_PROGRAM_PASSTHRU_def DISPLAY_PROGRAM_CUSTOM_def Display_Programs_t_CountOf_def Let_def)

subsection \<open>Display_initialize\<close>

lemmas display_eval = Display_initialize_def initialize_vram_def initialize_programs_def
  Display_shader_def program_build_def program_create_def program_attach_def program_delete_def
  compute_size_def c_div_def imin_def Display_zero_def good_platform_def good_driver_def
  canvas_320x180_def DISPLAY_PROGRAM_PASSTHRU_def DISPLAY_PROGRAM_CUSTOM_def
  Display_Programs_t_CountOf_def Let_def signed_divide_int_def window_open_def times_called_def

lemma initialize_programs_vram:
  "initialize_programs platform display ev = Some (ok, d, evs) \<Longrightarrow> Display_t.vram d = Display_t.vram display"
  by (auto simp: initialize_programs_def Display_shader_def program_build_def program_create_def
      program_attach_def program_delete_def Let_def DISPLAY_PROGRAM_PASSTHRU_def
      split: if_splits option.splits prod.splits)

lemma compute_size_configuration:
  "compute_size workarea display config = Some (ok, d, p, ev) \<Longrightarrow> configuration d = configuration display"
  by (auto simp: compute_size_def c_div_def Let_def split: prod.splits if_splits Option.bind_splits)

lemma compute_size_log:
  "compute_size workarea display config = Some (ok, d, p, ev) \<Longrightarrow>
     (\<forall>n s. malloc n s \<notin> set ev) \<and> times_called glfwDestroyWindow ev = 0"
  by (auto simp: compute_size_def c_div_def Let_def times_called_def split: prod.splits if_splits Option.bind_splits)

lemma initialize_programs_calls:
  assumes "initialize_programs platform display ev = Some (ok, d, evs)"
  shows "times_called glfwDestroyWindow evs = times_called glfwDestroyWindow ev + (if ok then 0 else 1)"
  using assms
  by (auto simp: initialize_programs_def Display_shader_def program_build_def program_create_def
      program_attach_def program_delete_def Let_def DISPLAY_PROGRAM_PASSTHRU_def times_called_def
      split: if_splits option.splits prod.splits)

lemma initialize_vram_size:
  assumes "initialize_vram platform display ev = Some (True, d, evs)" "malloc_ok platform"
  shows "Display_t.vram d = Some (nat (Display_Configuration_t.width (configuration display)
                                       * Display_Configuration_t.width (configuration display)))"
  using assms
  by (auto simp: initialize_vram_def Let_def dest!: initialize_programs_vram split: if_splits)

lemma Display_initialize_vram_size:
  assumes "Display_initialize platform config = Some (True, d, ev)" "malloc_ok platform"
  shows "Display_t.vram d = Some (nat (Display_Configuration_t.width config * Display_Configuration_t.width config))"
  using assms
  by (auto simp: Display_initialize_def Let_def
      dest!: initialize_vram_size compute_size_configuration split: if_splits option.splits)

lemma initialize_vram_malloc_failure:
  assumes "initialize_vram platform display ev = Some (ok, d, evs)" "\<not> malloc_ok platform"
  shows "times_called glfwDestroyWindow evs = times_called glfwDestroyWindow ev + (if ok then 1 else 2)"
  using assms
  by (auto simp: initialize_vram_def Let_def times_called_def dest!: initialize_programs_calls split: if_splits)


lemma compute_size_no_malloc:
  "compute_size workarea display config = Some (ok, d, p, ev) \<Longrightarrow> malloc n s \<in> set ev \<Longrightarrow> False"
  using compute_size_log by blast

lemma Display_initialize_reaches_vram:
  assumes run: "Display_initialize platform config = Some (ok, d, ev)"
    and reached: "malloc n s \<in> set ev"
  shows "\<exists>display2 p ev_size ev0.
      compute_size (glfwGetMonitorWorkarea platform)
          (Display_zero\<lparr>configuration := config, window := True\<rparr>) config = Some (True, display2, p, ev_size)
      \<and> initialize_vram platform display2 ev0 = Some (ok, d, ev)
      \<and> times_called glfwDestroyWindow ev0 = times_called glfwDestroyWindow ev_size"
proof (cases "compute_size (glfwGetMonitorWorkarea platform)
          (Display_zero\<lparr>configuration := config, window := True\<rparr>) config")
  case None
  then show ?thesis
    using run reached by (auto simp: Display_initialize_def Let_def split: if_splits)
next
  case (Some result)
  obtain fits display2 p ev_size where result: "result = (fits, display2, p, ev_size)"
    by (cases result) auto
  have quiet: "malloc n s \<notin> set ev_size"
    using compute_size_no_malloc[OF Some[unfolded result]] by blast
  show ?thesis
    using run reached quiet unfolding Display_initialize_def Let_def Some result
    by (auto simp: times_called_def split: if_splits)
qed

lemma Display_initialize_malloc_failure:
  assumes run: "Display_initialize platform config = Some (ok, d, ev)"
    and failing: "\<not> malloc_ok platform" and reached: "malloc n False \<in> set ev"
  shows "times_called glfwDestroyWindow ev = (if ok then 1 else 2)"
proof -
  from Display_initialize_reaches_vram[OF run reached] obtain display2 p ev_size ev0
    where size: "compute_size (glfwGetMonitorWorkarea platform)
          (Display_zero\<lparr>configuration := config, window := True\<rparr>) config = Some (True, display2, p, ev_size)"
      and rest: "initialize_vram platform display2 ev0 = Some (ok, d, ev)"
      and before: "times_called glfwDestroyWindow ev0 = times_called glfwDestroyWindow ev_size"
    by blast
  have "times_called glfwDestroyWindow ev0 = 0"
    using compute_size_log[OF size] before by simp
  then show ?thesis
    using initialize_vram_malloc_failure[OF rest failing] by simp
qed

text \<open>
  C5. Every failure of \<open>Display_initialize\<close> should release what was acquired and
  return false. When the allocation of \<open>display->vram\<close> fails, the function releases
  the GL context, the window and GLFW, and then goes on (the branch has no
  \<open>return\<close>): with a texture name and a program from the driver it returns true, with
  a display that has no buffer and no window; with the texture name 0 it returns false
  after releasing the GL context, the window and GLFW a second time
  (\<open>Display_initialize_malloc_failure\<close> has the general statement).
\<close>

theorem Display_initialize_goes_on_after_malloc_failure:
  "(\<exists>d ev. Display_initialize (good_platform\<lparr>malloc_ok := False\<rparr>) canvas_320x180 = Some (True, d, ev)
       \<and> Display_t.vram d = None \<and> \<not> window_open ev
       \<and> times_called GL_context_delete ev = 1 \<and> times_called glfwTerminate ev = 1
       \<and> times_called (glGenTextures 1) ev = 1 \<and> times_called (glCreateProgram 1) ev = 1)
   \<and> (\<exists>d ev. Display_initialize (good_platform\<lparr>malloc_ok := False, glGenTextures_id := 0\<rparr>) canvas_320x180
         = Some (False, d, ev)
       \<and> times_called GL_context_delete ev = 2 \<and> times_called glfwDestroyWindow ev = 2
       \<and> times_called glfwTerminate ev = 2)"
  by (simp add: display_eval)

text \<open>
  C6. The buffer \<open>display->vram\<close> should hold width times height colours. It is
  allocated, once, with width times width entries (\<open>Display_initialize_vram_size\<close>):
  102400 for the canvas of 320 by 180, which has 57600 pixels.
\<close>

theorem Display_initialize_vram_entries:
  "(\<exists>d ev. Display_initialize good_platform canvas_320x180 = Some (True, d, ev)
       \<and> Display_t.vram d = Some 102400 \<and> times_called (malloc 102400 True) ev = 1)
   \<and> nat (Display_Configuration_t.width canvas_320x180 * Display_Configuration_t.height canvas_320x180) = 57600"
  by (simp add: display_eval)

end
